theory Spec2Isabelle
  imports Complex_Main "HOL-Library.Sublist"
begin

section \<open>Python strings\<close>

text \<open>
  A Python \<open>str\<close> is a sequence of Unicode code points; it is modelled as the list of
  their numbers. \<open>str\<close> turns an ASCII literal into such a list.
\<close>

type_synonym pystr = "nat list"

definition str :: "string \<Rightarrow> pystr" where
  "str s = map of_char s"

text \<open>
  \<open>str.isspace\<close> of one code point, as CPython's table of white space has it: the
  characters that \<open>str.strip()\<close> removes when it is called without an argument.
\<close>

definition py_isspace :: "nat \<Rightarrow> bool" where
  "py_isspace c \<longleftrightarrow>
     (0x09 \<le> c \<and> c \<le> 0x0D) \<or> (0x1C \<le> c \<and> c \<le> 0x20) \<or> c = 0x85 \<or> c = 0xA0 \<or>
     c = 0x1680 \<or> (0x2000 \<le> c \<and> c \<le> 0x200A) \<or> c = 0x2028 \<or> c = 0x2029 \<or>
     c = 0x202F \<or> c = 0x205F \<or> c = 0x3000"

definition py_strip :: "pystr \<Rightarrow> pystr" where
  "py_strip s = rev (dropWhile py_isspace (rev (dropWhile py_isspace s)))"

text \<open>
  \<open>str.lower()\<close> follows the Unicode case tables. The model lowers the ASCII letters
  and the two code points outside ASCII whose lower case holds an ASCII letter
  (U+0130 gives \<open>i\<close> and U+0307, the Kelvin sign U+212A gives \<open>k\<close>). Every other cased
  code point has a lower case outside ASCII and is left in place: the tests below
  search the lowered text for ASCII words only, and their answers are the same.
\<close>

definition lower_cp :: "nat \<Rightarrow> pystr" where
  "lower_cp c =
     (if 0x41 \<le> c \<and> c \<le> 0x5A then [c + 0x20]
      else if c = 0x130 then [0x69, 0x307]
      else if c = 0x212A then [0x6B]
      else [c])"

definition py_lower :: "pystr \<Rightarrow> pystr" where
  "py_lower s = concat (map lower_cp s)"

text \<open>\<open>s.startswith(p)\<close> and \<open>k in s\<close> for strings.\<close>

definition startswith :: "pystr \<Rightarrow> pystr \<Rightarrow> bool" where
  "startswith s p = prefix p s"

definition py_in :: "pystr \<Rightarrow> pystr \<Rightarrow> bool" where
  "py_in k s = sublist k s"

section \<open>The log consumer of the dashboard (\<open>gui.py\<close>, \<open>consume_test_logs\<close>)\<close>

text \<open>The tags that \<open>add_log\<close> is called with.\<close>

datatype tag = Error | Warning | Info | Success

text \<open>The two failure glyphs: U+2717 (ballot x) and U+274C (cross mark).\<close>

definition ballot_x :: pystr where
  "ballot_x = [0x2717]"

definition cross_mark :: pystr where
  "cross_mark = [0x274C]"

text \<open>
  The condition \<open>is_explicit_fail\<close> of the loop body, on \<open>normalized\<close> and its lower case.
  In Python \<open>and\<close> binds tighter than \<open>or\<close>; the brackets below are the ones the
  interpreter puts.
\<close>

definition is_explicit_fail :: "pystr \<Rightarrow> bool" where
  "is_explicit_fail normalized =
     (let lower = py_lower normalized in
        startswith normalized ballot_x
      \<or> startswith normalized cross_mark
      \<or> py_in (str ''] ERROR'') normalized
      \<or> startswith normalized (str ''ERROR'')
      \<or> py_in (str '' critical step failed'') lower
      \<or> (py_in (str ''selector'') lower \<and> py_in (str ''not found'') lower)
      \<or> (py_in (str ''timeout'') lower
           \<and> (py_in (str ''failed'') lower \<or> py_in (str ''selector'') lower)))"

text \<open>
  The tag one line of output is logged with: \<open>line_text = line.strip()\<close>,
  \<open>normalized = line_text.strip()\<close>, then the \<open>if\<close>/\<open>elif\<close>/\<open>else\<close> of the body.
\<close>

definition classify_line :: "pystr \<Rightarrow> tag" where
  "classify_line line =
     (let line_text = py_strip line;
          normalized = py_strip line_text
      in if is_explicit_fail normalized then Error
         else if py_in (str ''warning'') (py_lower line_text) then Warning
         else Info)"

text \<open>
  The state of the loop: the flag, the last failing line, and the calls of \<open>add_log\<close>
  made so far (message and tag, oldest first).
\<close>

record consumer =
  test_failed :: bool
  error_message :: "pystr option"
  logged :: "(pystr \<times> tag) list"

definition consume_line :: "consumer \<Rightarrow> pystr \<Rightarrow> consumer" where
  "consume_line st line =
     (if line = [] then st
      else
        let line_text = py_strip line;
            t = classify_line line;
            st' = st\<lparr>logged := logged st @ [(line_text, t)]\<rparr>
        in if t = Error
           then st'\<lparr>test_failed := True, error_message := Some line_text\<rparr>
           else st')"

text \<open>
  The run as the consumer sees it: the lines the process wrote until it closed its
  output, and the exit code that \<open>wait()\<close> leaves in \<open>returncode\<close>. The result is what
  \<open>create_test_summary\<close> is called with: the status, which it writes to the summary
  under \<open>status\<close>, and the error message.
\<close>

record verdict =
  test_status :: string
  reported_error :: "pystr option"
  final_log :: "(pystr \<times> tag) list"

definition consume_test_logs :: "pystr list \<Rightarrow> int \<Rightarrow> verdict" where
  "consume_test_logs lines returncode =
     (let st = foldl consume_line
                 \<lparr>test_failed = False, error_message = None, logged = []\<rparr> lines
      in if test_failed st \<or> returncode \<noteq> 0
         then \<lparr>test_status = ''failed'', reported_error = error_message st,
               final_log = logged st @ [(cross_mark @ str '' Test failed!'', Error)]\<rparr>
         else \<lparr>test_status = ''ok'', reported_error = error_message st,
               final_log = logged st @ [([0x2705] @ str '' Test completed successfully!'', Success)]\<rparr>)"

section \<open>Python values\<close>

text \<open>
  What \<open>json.load\<close> returns, and what \<open>dict(...)\<close> builds from it: \<open>None\<close>, booleans,
  integers, floats (by the number they hold; \<open>NaN\<close> and the infinities are not
  represented), strings, lists and dictionaries. A dictionary is the list of its
  entries in insertion order. The dictionaries of a JSON document have string keys;
  \<open>dict(...)\<close> of a list of pairs can give keys of the other hashable kinds.
\<close>

datatype pyval =
    PNone
  | PBool bool
  | PInt int
  | PFloat real
  | PStr pystr
  | PList "pyval list"
  | PDict "(pyval \<times> pyval) list"

type_synonym pydict = "(pyval \<times> pyval) list"

datatype py_error =
    TypeError | ValueError | AttributeError | OSError | JSONDecodeError | UnicodeEncodeError

fun truthy :: "pyval \<Rightarrow> bool" where
  "truthy PNone = False"
| "truthy (PBool b) = b"
| "truthy (PInt i) = (i \<noteq> 0)"
| "truthy (PFloat r) = (r \<noteq> 0)"
| "truthy (PStr s) = (s \<noteq> [])"
| "truthy (PList xs) = (xs \<noteq> [])"
| "truthy (PDict d) = (d \<noteq> [])"

text \<open>
  Two keys are the same key of a dictionary when they are equal in Python: numbers
  (booleans among them) by value, everything else by kind and content.
\<close>

fun key_num :: "pyval \<Rightarrow> real option" where
  "key_num (PBool b) = Some (if b then 1 else 0)"
| "key_num (PInt i) = Some (of_int i)"
| "key_num (PFloat r) = Some r"
| "key_num _ = None"

definition py_key_eq :: "pyval \<Rightarrow> pyval \<Rightarrow> bool" where
  "py_key_eq a b =
     (case (key_num a, key_num b) of
        (Some x, Some y) \<Rightarrow> x = y
      | (None, None) \<Rightarrow> a = b
      | _ \<Rightarrow> False)"

fun hashable :: "pyval \<Rightarrow> bool" where
  "hashable (PList xs) = False"
| "hashable (PDict d) = False"
| "hashable _ = True"

fun dict_lookup :: "pydict \<Rightarrow> pyval \<Rightarrow> pyval option" where
  "dict_lookup [] k = None"
| "dict_lookup ((k', v) # d) k = (if py_key_eq k' k then Some v else dict_lookup d k)"

text \<open>\<open>d.get(k, default)\<close>, \<open>k in d\<close>, \<open>d[k] = v\<close> and \<open>d.setdefault(k, v)\<close>.\<close>

definition dict_get :: "pydict \<Rightarrow> pyval \<Rightarrow> pyval \<Rightarrow> pyval" where
  "dict_get d k dflt = (case dict_lookup d k of Some v \<Rightarrow> v | None \<Rightarrow> dflt)"

definition dict_contains :: "pydict \<Rightarrow> pyval \<Rightarrow> bool" where
  "dict_contains d k = (dict_lookup d k \<noteq> None)"

fun dict_setitem :: "pydict \<Rightarrow> pyval \<Rightarrow> pyval \<Rightarrow> pydict" where
  "dict_setitem [] k v = [(k, v)]"
| "dict_setitem ((k', v') # d) k v =
     (if py_key_eq k' k then (k', v) # d else (k', v') # dict_setitem d k v)"

definition dict_setdefault :: "pydict \<Rightarrow> pyval \<Rightarrow> pyval \<Rightarrow> pydict" where
  "dict_setdefault d k v = (if dict_contains d k then d else dict_setitem d k v)"

text \<open>
  \<open>dict(x)\<close>: a copy of a dictionary; from a list, one entry per element, which must be
  a sequence of length two (a list, a string of two characters, or a dictionary with
  two keys, which iterates over its keys) with a hashable first component; from a
  string only when it is empty, since each character is a sequence of length one.
\<close>

fun pair_of :: "pyval \<Rightarrow> py_error + (pyval \<times> pyval)" where
  "pair_of (PList [a, b]) = Inr (a, b)"
| "pair_of (PList xs) = Inl ValueError"
| "pair_of (PStr [a, b]) = Inr (PStr [a], PStr [b])"
| "pair_of (PStr s) = Inl ValueError"
| "pair_of (PDict [(k1, v1), (k2, v2)]) = Inr (k1, k2)"
| "pair_of (PDict d) = Inl ValueError"
| "pair_of _ = Inl TypeError"

fun dict_from_pairs :: "pydict \<Rightarrow> pyval list \<Rightarrow> py_error + pydict" where
  "dict_from_pairs acc [] = Inr acc"
| "dict_from_pairs acc (x # xs) =
     (case pair_of x of
        Inl e \<Rightarrow> Inl e
      | Inr (k, v) \<Rightarrow>
          if hashable k then dict_from_pairs (dict_setitem acc k v) xs else Inl TypeError)"

fun py_dict :: "pyval \<Rightarrow> py_error + pydict" where
  "py_dict (PDict d) = Inr d"
| "py_dict (PList xs) = dict_from_pairs [] xs"
| "py_dict (PStr s) = (if s = [] then Inr [] else Inl ValueError)"
| "py_dict _ = Inl TypeError"

section \<open>The flow runner (\<open>tests/json_runner.py\<close>)\<close>

text \<open>
  \<open>str.upper()\<close> maps each code point by the Unicode table of the interpreter
  (Unicode 14.0, as CPython 3.11 has it): 1525 code points change, 102 of them into
  two or three code points, and every other code point stays. The table is given in
  parts, each for a range of code points; an entry is a code point and its upper case.
\<close>

definition upper_part_0061 :: "(nat \<times> pystr) list" where
  "upper_part_0061 =
    [(0x61, [0x41]), (0x62, [0x42]), (0x63, [0x43]), (0x64, [0x44]), (0x65, [0x45]),
     (0x66, [0x46]), (0x67, [0x47]), (0x68, [0x48]), (0x69, [0x49]), (0x6A, [0x4A]),
     (0x6B, [0x4B]), (0x6C, [0x4C]), (0x6D, [0x4D]), (0x6E, [0x4E]), (0x6F, [0x4F]),
     (0x70, [0x50]), (0x71, [0x51]), (0x72, [0x52]), (0x73, [0x53]), (0x74, [0x54]),
     (0x75, [0x55]), (0x76, [0x56]), (0x77, [0x57]), (0x78, [0x58]), (0x79, [0x59]),
     (0x7A, [0x5A])]"

definition upper_part_00B5 :: "(nat \<times> pystr) list" where
  "upper_part_00B5 =
    [(0xB5, [0x39C]), (0xDF, [0x53, 0x53]), (0xE0, [0xC0]), (0xE1, [0xC1]), (0xE2, [0xC2]),
     (0xE3, [0xC3]), (0xE4, [0xC4]), (0xE5, [0xC5]), (0xE6, [0xC6]), (0xE7, [0xC7]),
     (0xE8, [0xC8]), (0xE9, [0xC9]), (0xEA, [0xCA]), (0xEB, [0xCB]), (0xEC, [0xCC]),
     (0xED, [0xCD]), (0xEE, [0xCE]), (0xEF, [0xCF]), (0xF0, [0xD0]), (0xF1, [0xD1]),
     (0xF2, [0xD2]), (0xF3, [0xD3]), (0xF4, [0xD4]), (0xF5, [0xD5]), (0xF6, [0xD6]),
     (0xF8, [0xD8]), (0xF9, [0xD9]), (0xFA, [0xDA]), (0xFB, [0xDB]), (0xFC, [0xDC]),
     (0xFD, [0xDD]), (0xFE, [0xDE]), (0xFF, [0x178]), (0x101, [0x100]), (0x103, [0x102]),
     (0x105, [0x104]), (0x107, [0x106]), (0x109, [0x108]), (0x10B, [0x10A]), (0x10D, [0x10C]),
     (0x10F, [0x10E]), (0x111, [0x110]), (0x113, [0x112]), (0x115, [0x114]), (0x117, [0x116]),
     (0x119, [0x118]), (0x11B, [0x11A]), (0x11D, [0x11C]), (0x11F, [0x11E]), (0x121, [0x120]),
     (0x123, [0x122]), (0x125, [0x124]), (0x127, [0x126]), (0x129, [0x128]), (0x12B, [0x12A]),
     (0x12D, [0x12C]), (0x12F, [0x12E]), (0x131, [0x49]), (0x133, [0x132]), (0x135, [0x134]),
     (0x137, [0x136]), (0x13A, [0x139]), (0x13C, [0x13B]), (0x13E, [0x13D]), (0x140, [0x13F]),
     (0x142, [0x141]), (0x144, [0x143]), (0x146, [0x145]), (0x148, [0x147]),
     (0x149, [0x2BC, 0x4E]), (0x14B, [0x14A]), (0x14D, [0x14C]), (0x14F, [0x14E]),
     (0x151, [0x150]), (0x153, [0x152]), (0x155, [0x154]), (0x157, [0x156]), (0x159, [0x158]),
     (0x15B, [0x15A]), (0x15D, [0x15C])]"

definition upper_part_015F :: "(nat \<times> pystr) list" where
  "upper_part_015F =
    [(0x15F, [0x15E]), (0x161, [0x160]), (0x163, [0x162]), (0x165, [0x164]), (0x167, [0x166]),
     (0x169, [0x168]), (0x16B, [0x16A]), (0x16D, [0x16C]), (0x16F, [0x16E]), (0x171, [0x170]),
     (0x173, [0x172]), (0x175, [0x174]), (0x177, [0x176]), (0x17A, [0x179]), (0x17C, [0x17B]),
     (0x17E, [0x17D]), (0x17F, [0x53]), (0x180, [0x243]), (0x183, [0x182]), (0x185, [0x184]),
     (0x188, [0x187]), (0x18C, [0x18B]), (0x192, [0x191]), (0x195, [0x1F6]), (0x199, [0x198]),
     (0x19A, [0x23D]), (0x19E, [0x220]), (0x1A1, [0x1A0]), (0x1A3, [0x1A2]), (0x1A5, [0x1A4]),
     (0x1A8, [0x1A7]), (0x1AD, [0x1AC]), (0x1B0, [0x1AF]), (0x1B4, [0x1B3]), (0x1B6, [0x1B5]),
     (0x1B9, [0x1B8]), (0x1BD, [0x1BC]), (0x1BF, [0x1F7]), (0x1C5, [0x1C4]), (0x1C6, [0x1C4]),
     (0x1C8, [0x1C7]), (0x1C9, [0x1C7]), (0x1CB, [0x1CA]), (0x1CC, [0x1CA]), (0x1CE, [0x1CD]),
     (0x1D0, [0x1CF]), (0x1D2, [0x1D1]), (0x1D4, [0x1D3]), (0x1D6, [0x1D5]), (0x1D8, [0x1D7]),
     (0x1DA, [0x1D9]), (0x1DC, [0x1DB]), (0x1DD, [0x18E]), (0x1DF, [0x1DE]), (0x1E1, [0x1E0]),
     (0x1E3, [0x1E2]), (0x1E5, [0x1E4]), (0x1E7, [0x1E6]), (0x1E9, [0x1E8]), (0x1EB, [0x1EA]),
     (0x1ED, [0x1EC]), (0x1EF, [0x1EE]), (0x1F0, [0x4A, 0x30C]), (0x1F2, [0x1F1]),
     (0x1F3, [0x1F1]), (0x1F5, [0x1F4]), (0x1F9, [0x1F8]), (0x1FB, [0x1FA]), (0x1FD, [0x1FC]),
     (0x1FF, [0x1FE]), (0x201, [0x200]), (0x203, [0x202]), (0x205, [0x204]), (0x207, [0x206]),
     (0x209, [0x208]), (0x20B, [0x20A]), (0x20D, [0x20C]), (0x20F, [0x20E]), (0x211, [0x210]),
     (0x213, [0x212])]"

definition upper_part_0215 :: "(nat \<times> pystr) list" where
  "upper_part_0215 =
    [(0x215, [0x214]), (0x217, [0x216]), (0x219, [0x218]), (0x21B, [0x21A]), (0x21D, [0x21C]),
     (0x21F, [0x21E]), (0x223, [0x222]), (0x225, [0x224]), (0x227, [0x226]), (0x229, [0x228]),
     (0x22B, [0x22A]), (0x22D, [0x22C]), (0x22F, [0x22E]), (0x231, [0x230]), (0x233, [0x232]),
     (0x23C, [0x23B]), (0x23F, [0x2C7E]), (0x240, [0x2C7F]), (0x242, [0x241]),
     (0x247, [0x246]), (0x249, [0x248]), (0x24B, [0x24A]), (0x24D, [0x24C]), (0x24F, [0x24E]),
     (0x250, [0x2C6F]), (0x251, [0x2C6D]), (0x252, [0x2C70]), (0x253, [0x181]),
     (0x254, [0x186]), (0x256, [0x189]), (0x257, [0x18A]), (0x259, [0x18F]), (0x25B, [0x190]),
     (0x25C, [0xA7AB]), (0x260, [0x193]), (0x261, [0xA7AC]), (0x263, [0x194]),
     (0x265, [0xA78D]), (0x266, [0xA7AA]), (0x268, [0x197]), (0x269, [0x196]),
     (0x26A, [0xA7AE]), (0x26B, [0x2C62]), (0x26C, [0xA7AD]), (0x26F, [0x19C]),
     (0x271, [0x2C6E]), (0x272, [0x19D]), (0x275, [0x19F]), (0x27D, [0x2C64]),
     (0x280, [0x1A6]), (0x282, [0xA7C5]), (0x283, [0x1A9]), (0x287, [0xA7B1]),
     (0x288, [0x1AE]), (0x289, [0x244]), (0x28A, [0x1B1]), (0x28B, [0x1B2]), (0x28C, [0x245]),
     (0x292, [0x1B7]), (0x29D, [0xA7B2]), (0x29E, [0xA7B0]), (0x345, [0x399]),
     (0x371, [0x370]), (0x373, [0x372]), (0x377, [0x376]), (0x37B, [0x3FD]), (0x37C, [0x3FE]),
     (0x37D, [0x3FF]), (0x390, [0x399, 0x308, 0x301]), (0x3AC, [0x386]), (0x3AD, [0x388]),
     (0x3AE, [0x389]), (0x3AF, [0x38A]), (0x3B0, [0x3A5, 0x308, 0x301]), (0x3B1, [0x391]),
     (0x3B2, [0x392]), (0x3B3, [0x393]), (0x3B4, [0x394]), (0x3B5, [0x395]), (0x3B6, [0x396])]"

definition upper_part_03B7 :: "(nat \<times> pystr) list" where
  "upper_part_03B7 =
    [(0x3B7, [0x397]), (0x3B8, [0x398]), (0x3B9, [0x399]), (0x3BA, [0x39A]), (0x3BB, [0x39B]),
     (0x3BC, [0x39C]), (0x3BD, [0x39D]), (0x3BE, [0x39E]), (0x3BF, [0x39F]), (0x3C0, [0x3A0]),
     (0x3C1, [0x3A1]), (0x3C2, [0x3A3]), (0x3C3, [0x3A3]), (0x3C4, [0x3A4]), (0x3C5, [0x3A5]),
     (0x3C6, [0x3A6]), (0x3C7, [0x3A7]), (0x3C8, [0x3A8]), (0x3C9, [0x3A9]), (0x3CA, [0x3AA]),
     (0x3CB, [0x3AB]), (0x3CC, [0x38C]), (0x3CD, [0x38E]), (0x3CE, [0x38F]), (0x3D0, [0x392]),
     (0x3D1, [0x398]), (0x3D5, [0x3A6]), (0x3D6, [0x3A0]), (0x3D7, [0x3CF]), (0x3D9, [0x3D8]),
     (0x3DB, [0x3DA]), (0x3DD, [0x3DC]), (0x3DF, [0x3DE]), (0x3E1, [0x3E0]), (0x3E3, [0x3E2]),
     (0x3E5, [0x3E4]), (0x3E7, [0x3E6]), (0x3E9, [0x3E8]), (0x3EB, [0x3EA]), (0x3ED, [0x3EC]),
     (0x3EF, [0x3EE]), (0x3F0, [0x39A]), (0x3F1, [0x3A1]), (0x3F2, [0x3F9]), (0x3F3, [0x37F]),
     (0x3F5, [0x395]), (0x3F8, [0x3F7]), (0x3FB, [0x3FA]), (0x430, [0x410]), (0x431, [0x411]),
     (0x432, [0x412]), (0x433, [0x413]), (0x434, [0x414]), (0x435, [0x415]), (0x436, [0x416]),
     (0x437, [0x417]), (0x438, [0x418]), (0x439, [0x419]), (0x43A, [0x41A]), (0x43B, [0x41B]),
     (0x43C, [0x41C]), (0x43D, [0x41D]), (0x43E, [0x41E]), (0x43F, [0x41F]), (0x440, [0x420]),
     (0x441, [0x421]), (0x442, [0x422]), (0x443, [0x423]), (0x444, [0x424]), (0x445, [0x425]),
     (0x446, [0x426]), (0x447, [0x427]), (0x448, [0x428]), (0x449, [0x429]), (0x44A, [0x42A]),
     (0x44B, [0x42B]), (0x44C, [0x42C]), (0x44D, [0x42D]), (0x44E, [0x42E]), (0x44F, [0x42F])]"

definition upper_part_0450 :: "(nat \<times> pystr) list" where
  "upper_part_0450 =
    [(0x450, [0x400]), (0x451, [0x401]), (0x452, [0x402]), (0x453, [0x403]), (0x454, [0x404]),
     (0x455, [0x405]), (0x456, [0x406]), (0x457, [0x407]), (0x458, [0x408]), (0x459, [0x409]),
     (0x45A, [0x40A]), (0x45B, [0x40B]), (0x45C, [0x40C]), (0x45D, [0x40D]), (0x45E, [0x40E]),
     (0x45F, [0x40F]), (0x461, [0x460]), (0x463, [0x462]), (0x465, [0x464]), (0x467, [0x466]),
     (0x469, [0x468]), (0x46B, [0x46A]), (0x46D, [0x46C]), (0x46F, [0x46E]), (0x471, [0x470]),
     (0x473, [0x472]), (0x475, [0x474]), (0x477, [0x476]), (0x479, [0x478]), (0x47B, [0x47A]),
     (0x47D, [0x47C]), (0x47F, [0x47E]), (0x481, [0x480]), (0x48B, [0x48A]), (0x48D, [0x48C]),
     (0x48F, [0x48E]), (0x491, [0x490]), (0x493, [0x492]), (0x495, [0x494]), (0x497, [0x496]),
     (0x499, [0x498]), (0x49B, [0x49A]), (0x49D, [0x49C]), (0x49F, [0x49E]), (0x4A1, [0x4A0]),
     (0x4A3, [0x4A2]), (0x4A5, [0x4A4]), (0x4A7, [0x4A6]), (0x4A9, [0x4A8]), (0x4AB, [0x4AA]),
     (0x4AD, [0x4AC]), (0x4AF, [0x4AE]), (0x4B1, [0x4B0]), (0x4B3, [0x4B2]), (0x4B5, [0x4B4]),
     (0x4B7, [0x4B6]), (0x4B9, [0x4B8]), (0x4BB, [0x4BA]), (0x4BD, [0x4BC]), (0x4BF, [0x4BE]),
     (0x4C2, [0x4C1]), (0x4C4, [0x4C3]), (0x4C6, [0x4C5]), (0x4C8, [0x4C7]), (0x4CA, [0x4C9]),
     (0x4CC, [0x4CB]), (0x4CE, [0x4CD]), (0x4CF, [0x4C0]), (0x4D1, [0x4D0]), (0x4D3, [0x4D2]),
     (0x4D5, [0x4D4]), (0x4D7, [0x4D6]), (0x4D9, [0x4D8]), (0x4DB, [0x4DA]), (0x4DD, [0x4DC]),
     (0x4DF, [0x4DE]), (0x4E1, [0x4E0]), (0x4E3, [0x4E2]), (0x4E5, [0x4E4]), (0x4E7, [0x4E6])]"

definition upper_part_04E9 :: "(nat \<times> pystr) list" where
  "upper_part_04E9 =
    [(0x4E9, [0x4E8]), (0x4EB, [0x4EA]), (0x4ED, [0x4EC]), (0x4EF, [0x4EE]), (0x4F1, [0x4F0]),
     (0x4F3, [0x4F2]), (0x4F5, [0x4F4]), (0x4F7, [0x4F6]), (0x4F9, [0x4F8]), (0x4FB, [0x4FA]),
     (0x4FD, [0x4FC]), (0x4FF, [0x4FE]), (0x501, [0x500]), (0x503, [0x502]), (0x505, [0x504]),
     (0x507, [0x506]), (0x509, [0x508]), (0x50B, [0x50A]), (0x50D, [0x50C]), (0x50F, [0x50E]),
     (0x511, [0x510]), (0x513, [0x512]), (0x515, [0x514]), (0x517, [0x516]), (0x519, [0x518]),
     (0x51B, [0x51A]), (0x51D, [0x51C]), (0x51F, [0x51E]), (0x521, [0x520]), (0x523, [0x522]),
     (0x525, [0x524]), (0x527, [0x526]), (0x529, [0x528]), (0x52B, [0x52A]), (0x52D, [0x52C]),
     (0x52F, [0x52E]), (0x561, [0x531]), (0x562, [0x532]), (0x563, [0x533]), (0x564, [0x534]),
     (0x565, [0x535]), (0x566, [0x536]), (0x567, [0x537]), (0x568, [0x538]), (0x569, [0x539]),
     (0x56A, [0x53A]), (0x56B, [0x53B]), (0x56C, [0x53C]), (0x56D, [0x53D]), (0x56E, [0x53E]),
     (0x56F, [0x53F]), (0x570, [0x540]), (0x571, [0x541]), (0x572, [0x542]), (0x573, [0x543]),
     (0x574, [0x544]), (0x575, [0x545]), (0x576, [0x546]), (0x577, [0x547]), (0x578, [0x548]),
     (0x579, [0x549]), (0x57A, [0x54A]), (0x57B, [0x54B]), (0x57C, [0x54C]), (0x57D, [0x54D]),
     (0x57E, [0x54E]), (0x57F, [0x54F]), (0x580, [0x550]), (0x581, [0x551]), (0x582, [0x552]),
     (0x583, [0x553]), (0x584, [0x554]), (0x585, [0x555]), (0x586, [0x556]),
     (0x587, [0x535, 0x552]), (0x10D0, [0x1C90]), (0x10D1, [0x1C91]), (0x10D2, [0x1C92]),
     (0x10D3, [0x1C93]), (0x10D4, [0x1C94])]"

definition upper_part_10D5 :: "(nat \<times> pystr) list" where
  "upper_part_10D5 =
    [(0x10D5, [0x1C95]), (0x10D6, [0x1C96]), (0x10D7, [0x1C97]), (0x10D8, [0x1C98]),
     (0x10D9, [0x1C99]), (0x10DA, [0x1C9A]), (0x10DB, [0x1C9B]), (0x10DC, [0x1C9C]),
     (0x10DD, [0x1C9D]), (0x10DE, [0x1C9E]), (0x10DF, [0x1C9F]), (0x10E0, [0x1CA0]),
     (0x10E1, [0x1CA1]), (0x10E2, [0x1CA2]), (0x10E3, [0x1CA3]), (0x10E4, [0x1CA4]),
     (0x10E5, [0x1CA5]), (0x10E6, [0x1CA6]), (0x10E7, [0x1CA7]), (0x10E8, [0x1CA8]),
     (0x10E9, [0x1CA9]), (0x10EA, [0x1CAA]), (0x10EB, [0x1CAB]), (0x10EC, [0x1CAC]),
     (0x10ED, [0x1CAD]), (0x10EE, [0x1CAE]), (0x10EF, [0x1CAF]), (0x10F0, [0x1CB0]),
     (0x10F1, [0x1CB1]), (0x10F2, [0x1CB2]), (0x10F3, [0x1CB3]), (0x10F4, [0x1CB4]),
     (0x10F5, [0x1CB5]), (0x10F6, [0x1CB6]), (0x10F7, [0x1CB7]), (0x10F8, [0x1CB8]),
     (0x10F9, [0x1CB9]), (0x10FA, [0x1CBA]), (0x10FD, [0x1CBD]), (0x10FE, [0x1CBE]),
     (0x10FF, [0x1CBF]), (0x13F8, [0x13F0]), (0x13F9, [0x13F1]), (0x13FA, [0x13F2]),
     (0x13FB, [0x13F3]), (0x13FC, [0x13F4]), (0x13FD, [0x13F5]), (0x1C80, [0x412]),
     (0x1C81, [0x414]), (0x1C82, [0x41E]), (0x1C83, [0x421]), (0x1C84, [0x422]),
     (0x1C85, [0x422]), (0x1C86, [0x42A]), (0x1C87, [0x462]), (0x1C88, [0xA64A]),
     (0x1D79, [0xA77D]), (0x1D7D, [0x2C63]), (0x1D8E, [0xA7C6]), (0x1E01, [0x1E00]),
     (0x1E03, [0x1E02]), (0x1E05, [0x1E04]), (0x1E07, [0x1E06]), (0x1E09, [0x1E08]),
     (0x1E0B, [0x1E0A]), (0x1E0D, [0x1E0C]), (0x1E0F, [0x1E0E]), (0x1E11, [0x1E10]),
     (0x1E13, [0x1E12]), (0x1E15, [0x1E14]), (0x1E17, [0x1E16]), (0x1E19, [0x1E18]),
     (0x1E1B, [0x1E1A]), (0x1E1D, [0x1E1C]), (0x1E1F, [0x1E1E]), (0x1E21, [0x1E20]),
     (0x1E23, [0x1E22]), (0x1E25, [0x1E24]), (0x1E27, [0x1E26]), (0x1E29, [0x1E28])]"

definition upper_part_1E2B :: "(nat \<times> pystr) list" where
  "upper_part_1E2B =
    [(0x1E2B, [0x1E2A]), (0x1E2D, [0x1E2C]), (0x1E2F, [0x1E2E]), (0x1E31, [0x1E30]),
     (0x1E33, [0x1E32]), (0x1E35, [0x1E34]), (0x1E37, [0x1E36]), (0x1E39, [0x1E38]),
     (0x1E3B, [0x1E3A]), (0x1E3D, [0x1E3C]), (0x1E3F, [0x1E3E]), (0x1E41, [0x1E40]),
     (0x1E43, [0x1E42]), (0x1E45, [0x1E44]), (0x1E47, [0x1E46]), (0x1E49, [0x1E48]),
     (0x1E4B, [0x1E4A]), (0x1E4D, [0x1E4C]), (0x1E4F, [0x1E4E]), (0x1E51, [0x1E50]),
     (0x1E53, [0x1E52]), (0x1E55, [0x1E54]), (0x1E57, [0x1E56]), (0x1E59, [0x1E58]),
     (0x1E5B, [0x1E5A]), (0x1E5D, [0x1E5C]), (0x1E5F, [0x1E5E]), (0x1E61, [0x1E60]),
     (0x1E63, [0x1E62]), (0x1E65, [0x1E64]), (0x1E67, [0x1E66]), (0x1E69, [0x1E68]),
     (0x1E6B, [0x1E6A]), (0x1E6D, [0x1E6C]), (0x1E6F, [0x1E6E]), (0x1E71, [0x1E70]),
     (0x1E73, [0x1E72]), (0x1E75, [0x1E74]), (0x1E77, [0x1E76]), (0x1E79, [0x1E78]),
     (0x1E7B, [0x1E7A]), (0x1E7D, [0x1E7C]), (0x1E7F, [0x1E7E]), (0x1E81, [0x1E80]),
     (0x1E83, [0x1E82]), (0x1E85, [0x1E84]), (0x1E87, [0x1E86]), (0x1E89, [0x1E88]),
     (0x1E8B, [0x1E8A]), (0x1E8D, [0x1E8C]), (0x1E8F, [0x1E8E]), (0x1E91, [0x1E90]),
     (0x1E93, [0x1E92]), (0x1E95, [0x1E94]), (0x1E96, [0x48, 0x331]), (0x1E97, [0x54, 0x308]),
     (0x1E98, [0x57, 0x30A]), (0x1E99, [0x59, 0x30A]), (0x1E9A, [0x41, 0x2BE]),
     (0x1E9B, [0x1E60]), (0x1EA1, [0x1EA0]), (0x1EA3, [0x1EA2]), (0x1EA5, [0x1EA4]),
     (0x1EA7, [0x1EA6]), (0x1EA9, [0x1EA8]), (0x1EAB, [0x1EAA]), (0x1EAD, [0x1EAC]),
     (0x1EAF, [0x1EAE]), (0x1EB1, [0x1EB0]), (0x1EB3, [0x1EB2]), (0x1EB5, [0x1EB4]),
     (0x1EB7, [0x1EB6]), (0x1EB9, [0x1EB8]), (0x1EBB, [0x1EBA]), (0x1EBD, [0x1EBC]),
     (0x1EBF, [0x1EBE]), (0x1EC1, [0x1EC0]), (0x1EC3, [0x1EC2]), (0x1EC5, [0x1EC4]),
     (0x1EC7, [0x1EC6])]"

definition upper_part_1EC9 :: "(nat \<times> pystr) list" where
  "upper_part_1EC9 =
    [(0x1EC9, [0x1EC8]), (0x1ECB, [0x1ECA]), (0x1ECD, [0x1ECC]), (0x1ECF, [0x1ECE]),
     (0x1ED1, [0x1ED0]), (0x1ED3, [0x1ED2]), (0x1ED5, [0x1ED4]), (0x1ED7, [0x1ED6]),
     (0x1ED9, [0x1ED8]), (0x1EDB, [0x1EDA]), (0x1EDD, [0x1EDC]), (0x1EDF, [0x1EDE]),
     (0x1EE1, [0x1EE0]), (0x1EE3, [0x1EE2]), (0x1EE5, [0x1EE4]), (0x1EE7, [0x1EE6]),
     (0x1EE9, [0x1EE8]), (0x1EEB, [0x1EEA]), (0x1EED, [0x1EEC]), (0x1EEF, [0x1EEE]),
     (0x1EF1, [0x1EF0]), (0x1EF3, [0x1EF2]), (0x1EF5, [0x1EF4]), (0x1EF7, [0x1EF6]),
     (0x1EF9, [0x1EF8]), (0x1EFB, [0x1EFA]), (0x1EFD, [0x1EFC]), (0x1EFF, [0x1EFE]),
     (0x1F00, [0x1F08]), (0x1F01, [0x1F09]), (0x1F02, [0x1F0A]), (0x1F03, [0x1F0B]),
     (0x1F04, [0x1F0C]), (0x1F05, [0x1F0D]), (0x1F06, [0x1F0E]), (0x1F07, [0x1F0F]),
     (0x1F10, [0x1F18]), (0x1F11, [0x1F19]), (0x1F12, [0x1F1A]), (0x1F13, [0x1F1B]),
     (0x1F14, [0x1F1C]), (0x1F15, [0x1F1D]), (0x1F20, [0x1F28]), (0x1F21, [0x1F29]),
     (0x1F22, [0x1F2A]), (0x1F23, [0x1F2B]), (0x1F24, [0x1F2C]), (0x1F25, [0x1F2D]),
     (0x1F26, [0x1F2E]), (0x1F27, [0x1F2F]), (0x1F30, [0x1F38]), (0x1F31, [0x1F39]),
     (0x1F32, [0x1F3A]), (0x1F33, [0x1F3B]), (0x1F34, [0x1F3C]), (0x1F35, [0x1F3D]),
     (0x1F36, [0x1F3E]), (0x1F37, [0x1F3F]), (0x1F40, [0x1F48]), (0x1F41, [0x1F49]),
     (0x1F42, [0x1F4A]), (0x1F43, [0x1F4B]), (0x1F44, [0x1F4C]), (0x1F45, [0x1F4D]),
     (0x1F50, [0x3A5, 0x313]), (0x1F51, [0x1F59]), (0x1F52, [0x3A5, 0x313, 0x300]),
     (0x1F53, [0x1F5B]), (0x1F54, [0x3A5, 0x313, 0x301]), (0x1F55, [0x1F5D]),
     (0x1F56, [0x3A5, 0x313, 0x342]), (0x1F57, [0x1F5F]), (0x1F60, [0x1F68]),
     (0x1F61, [0x1F69]), (0x1F62, [0x1F6A]), (0x1F63, [0x1F6B]), (0x1F64, [0x1F6C]),
     (0x1F65, [0x1F6D]), (0x1F66, [0x1F6E]), (0x1F67, [0x1F6F])]"

definition upper_part_1F70 :: "(nat \<times> pystr) list" where
  "upper_part_1F70 =
    [(0x1F70, [0x1FBA]), (0x1F71, [0x1FBB]), (0x1F72, [0x1FC8]), (0x1F73, [0x1FC9]),
     (0x1F74, [0x1FCA]), (0x1F75, [0x1FCB]), (0x1F76, [0x1FDA]), (0x1F77, [0x1FDB]),
     (0x1F78, [0x1FF8]), (0x1F79, [0x1FF9]), (0x1F7A, [0x1FEA]), (0x1F7B, [0x1FEB]),
     (0x1F7C, [0x1FFA]), (0x1F7D, [0x1FFB]), (0x1F80, [0x1F08, 0x399]),
     (0x1F81, [0x1F09, 0x399]), (0x1F82, [0x1F0A, 0x399]), (0x1F83, [0x1F0B, 0x399]),
     (0x1F84, [0x1F0C, 0x399]), (0x1F85, [0x1F0D, 0x399]), (0x1F86, [0x1F0E, 0x399]),
     (0x1F87, [0x1F0F, 0x399]), (0x1F88, [0x1F08, 0x399]), (0x1F89, [0x1F09, 0x399]),
     (0x1F8A, [0x1F0A, 0x399]), (0x1F8B, [0x1F0B, 0x399]), (0x1F8C, [0x1F0C, 0x399]),
     (0x1F8D, [0x1F0D, 0x399]), (0x1F8E, [0x1F0E, 0x399]), (0x1F8F, [0x1F0F, 0x399]),
     (0x1F90, [0x1F28, 0x399]), (0x1F91, [0x1F29, 0x399]), (0x1F92, [0x1F2A, 0x399]),
     (0x1F93, [0x1F2B, 0x399]), (0x1F94, [0x1F2C, 0x399]), (0x1F95, [0x1F2D, 0x399]),
     (0x1F96, [0x1F2E, 0x399]), (0x1F97, [0x1F2F, 0x399]), (0x1F98, [0x1F28, 0x399]),
     (0x1F99, [0x1F29, 0x399]), (0x1F9A, [0x1F2A, 0x399]), (0x1F9B, [0x1F2B, 0x399]),
     (0x1F9C, [0x1F2C, 0x399]), (0x1F9D, [0x1F2D, 0x399]), (0x1F9E, [0x1F2E, 0x399]),
     (0x1F9F, [0x1F2F, 0x399]), (0x1FA0, [0x1F68, 0x399]), (0x1FA1, [0x1F69, 0x399]),
     (0x1FA2, [0x1F6A, 0x399]), (0x1FA3, [0x1F6B, 0x399]), (0x1FA4, [0x1F6C, 0x399]),
     (0x1FA5, [0x1F6D, 0x399]), (0x1FA6, [0x1F6E, 0x399]), (0x1FA7, [0x1F6F, 0x399]),
     (0x1FA8, [0x1F68, 0x399]), (0x1FA9, [0x1F69, 0x399]), (0x1FAA, [0x1F6A, 0x399]),
     (0x1FAB, [0x1F6B, 0x399]), (0x1FAC, [0x1F6C, 0x399]), (0x1FAD, [0x1F6D, 0x399]),
     (0x1FAE, [0x1F6E, 0x399]), (0x1FAF, [0x1F6F, 0x399]), (0x1FB0, [0x1FB8]),
     (0x1FB1, [0x1FB9]), (0x1FB2, [0x1FBA, 0x399]), (0x1FB3, [0x391, 0x399]),
     (0x1FB4, [0x386, 0x399]), (0x1FB6, [0x391, 0x342]), (0x1FB7, [0x391, 0x342, 0x399]),
     (0x1FBC, [0x391, 0x399]), (0x1FBE, [0x399]), (0x1FC2, [0x1FCA, 0x399]),
     (0x1FC3, [0x397, 0x399]), (0x1FC4, [0x389, 0x399]), (0x1FC6, [0x397, 0x342]),
     (0x1FC7, [0x397, 0x342, 0x399]), (0x1FCC, [0x397, 0x399]), (0x1FD0, [0x1FD8]),
     (0x1FD1, [0x1FD9]), (0x1FD2, [0x399, 0x308, 0x300])]"

definition upper_part_1FD3 :: "(nat \<times> pystr) list" where
  "upper_part_1FD3 =
    [(0x1FD3, [0x399, 0x308, 0x301]), (0x1FD6, [0x399, 0x342]),
     (0x1FD7, [0x399, 0x308, 0x342]), (0x1FE0, [0x1FE8]), (0x1FE1, [0x1FE9]),
     (0x1FE2, [0x3A5, 0x308, 0x300]), (0x1FE3, [0x3A5, 0x308, 0x301]),
     (0x1FE4, [0x3A1, 0x313]), (0x1FE5, [0x1FEC]), (0x1FE6, [0x3A5, 0x342]),
     (0x1FE7, [0x3A5, 0x308, 0x342]), (0x1FF2, [0x1FFA, 0x399]), (0x1FF3, [0x3A9, 0x399]),
     (0x1FF4, [0x38F, 0x399]), (0x1FF6, [0x3A9, 0x342]), (0x1FF7, [0x3A9, 0x342, 0x399]),
     (0x1FFC, [0x3A9, 0x399]), (0x214E, [0x2132]), (0x2170, [0x2160]), (0x2171, [0x2161]),
     (0x2172, [0x2162]), (0x2173, [0x2163]), (0x2174, [0x2164]), (0x2175, [0x2165]),
     (0x2176, [0x2166]), (0x2177, [0x2167]), (0x2178, [0x2168]), (0x2179, [0x2169]),
     (0x217A, [0x216A]), (0x217B, [0x216B]), (0x217C, [0x216C]), (0x217D, [0x216D]),
     (0x217E, [0x216E]), (0x217F, [0x216F]), (0x2184, [0x2183]), (0x24D0, [0x24B6]),
     (0x24D1, [0x24B7]), (0x24D2, [0x24B8]), (0x24D3, [0x24B9]), (0x24D4, [0x24BA]),
     (0x24D5, [0x24BB]), (0x24D6, [0x24BC]), (0x24D7, [0x24BD]), (0x24D8, [0x24BE]),
     (0x24D9, [0x24BF]), (0x24DA, [0x24C0]), (0x24DB, [0x24C1]), (0x24DC, [0x24C2]),
     (0x24DD, [0x24C3]), (0x24DE, [0x24C4]), (0x24DF, [0x24C5]), (0x24E0, [0x24C6]),
     (0x24E1, [0x24C7]), (0x24E2, [0x24C8]), (0x24E3, [0x24C9]), (0x24E4, [0x24CA]),
     (0x24E5, [0x24CB]), (0x24E6, [0x24CC]), (0x24E7, [0x24CD]), (0x24E8, [0x24CE]),
     (0x24E9, [0x24CF]), (0x2C30, [0x2C00]), (0x2C31, [0x2C01]), (0x2C32, [0x2C02]),
     (0x2C33, [0x2C03]), (0x2C34, [0x2C04]), (0x2C35, [0x2C05]), (0x2C36, [0x2C06]),
     (0x2C37, [0x2C07]), (0x2C38, [0x2C08]), (0x2C39, [0x2C09]), (0x2C3A, [0x2C0A]),
     (0x2C3B, [0x2C0B]), (0x2C3C, [0x2C0C]), (0x2C3D, [0x2C0D]), (0x2C3E, [0x2C0E]),
     (0x2C3F, [0x2C0F]), (0x2C40, [0x2C10]), (0x2C41, [0x2C11]), (0x2C42, [0x2C12])]"

definition upper_part_2C43 :: "(nat \<times> pystr) list" where
  "upper_part_2C43 =
    [(0x2C43, [0x2C13]), (0x2C44, [0x2C14]), (0x2C45, [0x2C15]), (0x2C46, [0x2C16]),
     (0x2C47, [0x2C17]), (0x2C48, [0x2C18]), (0x2C49, [0x2C19]), (0x2C4A, [0x2C1A]),
     (0x2C4B, [0x2C1B]), (0x2C4C, [0x2C1C]), (0x2C4D, [0x2C1D]), (0x2C4E, [0x2C1E]),
     (0x2C4F, [0x2C1F]), (0x2C50, [0x2C20]), (0x2C51, [0x2C21]), (0x2C52, [0x2C22]),
     (0x2C53, [0x2C23]), (0x2C54, [0x2C24]), (0x2C55, [0x2C25]), (0x2C56, [0x2C26]),
     (0x2C57, [0x2C27]), (0x2C58, [0x2C28]), (0x2C59, [0x2C29]), (0x2C5A, [0x2C2A]),
     (0x2C5B, [0x2C2B]), (0x2C5C, [0x2C2C]), (0x2C5D, [0x2C2D]), (0x2C5E, [0x2C2E]),
     (0x2C5F, [0x2C2F]), (0x2C61, [0x2C60]), (0x2C65, [0x23A]), (0x2C66, [0x23E]),
     (0x2C68, [0x2C67]), (0x2C6A, [0x2C69]), (0x2C6C, [0x2C6B]), (0x2C73, [0x2C72]),
     (0x2C76, [0x2C75]), (0x2C81, [0x2C80]), (0x2C83, [0x2C82]), (0x2C85, [0x2C84]),
     (0x2C87, [0x2C86]), (0x2C89, [0x2C88]), (0x2C8B, [0x2C8A]), (0x2C8D, [0x2C8C]),
     (0x2C8F, [0x2C8E]), (0x2C91, [0x2C90]), (0x2C93, [0x2C92]), (0x2C95, [0x2C94]),
     (0x2C97, [0x2C96]), (0x2C99, [0x2C98]), (0x2C9B, [0x2C9A]), (0x2C9D, [0x2C9C]),
     (0x2C9F, [0x2C9E]), (0x2CA1, [0x2CA0]), (0x2CA3, [0x2CA2]), (0x2CA5, [0x2CA4]),
     (0x2CA7, [0x2CA6]), (0x2CA9, [0x2CA8]), (0x2CAB, [0x2CAA]), (0x2CAD, [0x2CAC]),
     (0x2CAF, [0x2CAE]), (0x2CB1, [0x2CB0]), (0x2CB3, [0x2CB2]), (0x2CB5, [0x2CB4]),
     (0x2CB7, [0x2CB6]), (0x2CB9, [0x2CB8]), (0x2CBB, [0x2CBA]), (0x2CBD, [0x2CBC]),
     (0x2CBF, [0x2CBE]), (0x2CC1, [0x2CC0]), (0x2CC3, [0x2CC2]), (0x2CC5, [0x2CC4]),
     (0x2CC7, [0x2CC6]), (0x2CC9, [0x2CC8]), (0x2CCB, [0x2CCA]), (0x2CCD, [0x2CCC]),
     (0x2CCF, [0x2CCE]), (0x2CD1, [0x2CD0]), (0x2CD3, [0x2CD2]), (0x2CD5, [0x2CD4])]"

definition upper_part_2CD7 :: "(nat \<times> pystr) list" where
  "upper_part_2CD7 =
    [(0x2CD7, [0x2CD6]), (0x2CD9, [0x2CD8]), (0x2CDB, [0x2CDA]), (0x2CDD, [0x2CDC]),
     (0x2CDF, [0x2CDE]), (0x2CE1, [0x2CE0]), (0x2CE3, [0x2CE2]), (0x2CEC, [0x2CEB]),
     (0x2CEE, [0x2CED]), (0x2CF3, [0x2CF2]), (0x2D00, [0x10A0]), (0x2D01, [0x10A1]),
     (0x2D02, [0x10A2]), (0x2D03, [0x10A3]), (0x2D04, [0x10A4]), (0x2D05, [0x10A5]),
     (0x2D06, [0x10A6]), (0x2D07, [0x10A7]), (0x2D08, [0x10A8]), (0x2D09, [0x10A9]),
     (0x2D0A, [0x10AA]), (0x2D0B, [0x10AB]), (0x2D0C, [0x10AC]), (0x2D0D, [0x10AD]),
     (0x2D0E, [0x10AE]), (0x2D0F, [0x10AF]), (0x2D10, [0x10B0]), (0x2D11, [0x10B1]),
     (0x2D12, [0x10B2]), (0x2D13, [0x10B3]), (0x2D14, [0x10B4]), (0x2D15, [0x10B5]),
     (0x2D16, [0x10B6]), (0x2D17, [0x10B7]), (0x2D18, [0x10B8]), (0x2D19, [0x10B9]),
     (0x2D1A, [0x10BA]), (0x2D1B, [0x10BB]), (0x2D1C, [0x10BC]), (0x2D1D, [0x10BD]),
     (0x2D1E, [0x10BE]), (0x2D1F, [0x10BF]), (0x2D20, [0x10C0]), (0x2D21, [0x10C1]),
     (0x2D22, [0x10C2]), (0x2D23, [0x10C3]), (0x2D24, [0x10C4]), (0x2D25, [0x10C5]),
     (0x2D27, [0x10C7]), (0x2D2D, [0x10CD]), (0xA641, [0xA640]), (0xA643, [0xA642]),
     (0xA645, [0xA644]), (0xA647, [0xA646]), (0xA649, [0xA648]), (0xA64B, [0xA64A]),
     (0xA64D, [0xA64C]), (0xA64F, [0xA64E]), (0xA651, [0xA650]), (0xA653, [0xA652]),
     (0xA655, [0xA654]), (0xA657, [0xA656]), (0xA659, [0xA658]), (0xA65B, [0xA65A]),
     (0xA65D, [0xA65C]), (0xA65F, [0xA65E]), (0xA661, [0xA660]), (0xA663, [0xA662]),
     (0xA665, [0xA664]), (0xA667, [0xA666]), (0xA669, [0xA668]), (0xA66B, [0xA66A]),
     (0xA66D, [0xA66C]), (0xA681, [0xA680]), (0xA683, [0xA682]), (0xA685, [0xA684]),
     (0xA687, [0xA686]), (0xA689, [0xA688]), (0xA68B, [0xA68A]), (0xA68D, [0xA68C])]"

definition upper_part_A68F :: "(nat \<times> pystr) list" where
  "upper_part_A68F =
    [(0xA68F, [0xA68E]), (0xA691, [0xA690]), (0xA693, [0xA692]), (0xA695, [0xA694]),
     (0xA697, [0xA696]), (0xA699, [0xA698]), (0xA69B, [0xA69A]), (0xA723, [0xA722]),
     (0xA725, [0xA724]), (0xA727, [0xA726]), (0xA729, [0xA728]), (0xA72B, [0xA72A]),
     (0xA72D, [0xA72C]), (0xA72F, [0xA72E]), (0xA733, [0xA732]), (0xA735, [0xA734]),
     (0xA737, [0xA736]), (0xA739, [0xA738]), (0xA73B, [0xA73A]), (0xA73D, [0xA73C]),
     (0xA73F, [0xA73E]), (0xA741, [0xA740]), (0xA743, [0xA742]), (0xA745, [0xA744]),
     (0xA747, [0xA746]), (0xA749, [0xA748]), (0xA74B, [0xA74A]), (0xA74D, [0xA74C]),
     (0xA74F, [0xA74E]), (0xA751, [0xA750]), (0xA753, [0xA752]), (0xA755, [0xA754]),
     (0xA757, [0xA756]), (0xA759, [0xA758]), (0xA75B, [0xA75A]), (0xA75D, [0xA75C]),
     (0xA75F, [0xA75E]), (0xA761, [0xA760]), (0xA763, [0xA762]), (0xA765, [0xA764]),
     (0xA767, [0xA766]), (0xA769, [0xA768]), (0xA76B, [0xA76A]), (0xA76D, [0xA76C]),
     (0xA76F, [0xA76E]), (0xA77A, [0xA779]), (0xA77C, [0xA77B]), (0xA77F, [0xA77E]),
     (0xA781, [0xA780]), (0xA783, [0xA782]), (0xA785, [0xA784]), (0xA787, [0xA786]),
     (0xA78C, [0xA78B]), (0xA791, [0xA790]), (0xA793, [0xA792]), (0xA794, [0xA7C4]),
     (0xA797, [0xA796]), (0xA799, [0xA798]), (0xA79B, [0xA79A]), (0xA79D, [0xA79C]),
     (0xA79F, [0xA79E]), (0xA7A1, [0xA7A0]), (0xA7A3, [0xA7A2]), (0xA7A5, [0xA7A4]),
     (0xA7A7, [0xA7A6]), (0xA7A9, [0xA7A8]), (0xA7B5, [0xA7B4]), (0xA7B7, [0xA7B6]),
     (0xA7B9, [0xA7B8]), (0xA7BB, [0xA7BA]), (0xA7BD, [0xA7BC]), (0xA7BF, [0xA7BE]),
     (0xA7C1, [0xA7C0]), (0xA7C3, [0xA7C2]), (0xA7C8, [0xA7C7]), (0xA7CA, [0xA7C9]),
     (0xA7D1, [0xA7D0]), (0xA7D7, [0xA7D6]), (0xA7D9, [0xA7D8]), (0xA7F6, [0xA7F5])]"

definition upper_part_AB53 :: "(nat \<times> pystr) list" where
  "upper_part_AB53 =
    [(0xAB53, [0xA7B3]), (0xAB70, [0x13A0]), (0xAB71, [0x13A1]), (0xAB72, [0x13A2]),
     (0xAB73, [0x13A3]), (0xAB74, [0x13A4]), (0xAB75, [0x13A5]), (0xAB76, [0x13A6]),
     (0xAB77, [0x13A7]), (0xAB78, [0x13A8]), (0xAB79, [0x13A9]), (0xAB7A, [0x13AA]),
     (0xAB7B, [0x13AB]), (0xAB7C, [0x13AC]), (0xAB7D, [0x13AD]), (0xAB7E, [0x13AE]),
     (0xAB7F, [0x13AF]), (0xAB80, [0x13B0]), (0xAB81, [0x13B1]), (0xAB82, [0x13B2]),
     (0xAB83, [0x13B3]), (0xAB84, [0x13B4]), (0xAB85, [0x13B5]), (0xAB86, [0x13B6]),
     (0xAB87, [0x13B7]), (0xAB88, [0x13B8]), (0xAB89, [0x13B9]), (0xAB8A, [0x13BA]),
     (0xAB8B, [0x13BB]), (0xAB8C, [0x13BC]), (0xAB8D, [0x13BD]), (0xAB8E, [0x13BE]),
     (0xAB8F, [0x13BF]), (0xAB90, [0x13C0]), (0xAB91, [0x13C1]), (0xAB92, [0x13C2]),
     (0xAB93, [0x13C3]), (0xAB94, [0x13C4]), (0xAB95, [0x13C5]), (0xAB96, [0x13C6]),
     (0xAB97, [0x13C7]), (0xAB98, [0x13C8]), (0xAB99, [0x13C9]), (0xAB9A, [0x13CA]),
     (0xAB9B, [0x13CB]), (0xAB9C, [0x13CC]), (0xAB9D, [0x13CD]), (0xAB9E, [0x13CE]),
     (0xAB9F, [0x13CF]), (0xABA0, [0x13D0]), (0xABA1, [0x13D1]), (0xABA2, [0x13D2]),
     (0xABA3, [0x13D3]), (0xABA4, [0x13D4]), (0xABA5, [0x13D5]), (0xABA6, [0x13D6]),
     (0xABA7, [0x13D7]), (0xABA8, [0x13D8]), (0xABA9, [0x13D9]), (0xABAA, [0x13DA]),
     (0xABAB, [0x13DB]), (0xABAC, [0x13DC]), (0xABAD, [0x13DD]), (0xABAE, [0x13DE]),
     (0xABAF, [0x13DF]), (0xABB0, [0x13E0]), (0xABB1, [0x13E1]), (0xABB2, [0x13E2]),
     (0xABB3, [0x13E3]), (0xABB4, [0x13E4]), (0xABB5, [0x13E5]), (0xABB6, [0x13E6]),
     (0xABB7, [0x13E7]), (0xABB8, [0x13E8]), (0xABB9, [0x13E9]), (0xABBA, [0x13EA]),
     (0xABBB, [0x13EB]), (0xABBC, [0x13EC]), (0xABBD, [0x13ED]), (0xABBE, [0x13EE])]"

definition upper_part_ABBF :: "(nat \<times> pystr) list" where
  "upper_part_ABBF =
    [(0xABBF, [0x13EF]), (0xFB00, [0x46, 0x46]), (0xFB01, [0x46, 0x49]),
     (0xFB02, [0x46, 0x4C]), (0xFB03, [0x46, 0x46, 0x49]), (0xFB04, [0x46, 0x46, 0x4C]),
     (0xFB05, [0x53, 0x54]), (0xFB06, [0x53, 0x54]), (0xFB13, [0x544, 0x546]),
     (0xFB14, [0x544, 0x535]), (0xFB15, [0x544, 0x53B]), (0xFB16, [0x54E, 0x546]),
     (0xFB17, [0x544, 0x53D]), (0xFF41, [0xFF21]), (0xFF42, [0xFF22]), (0xFF43, [0xFF23]),
     (0xFF44, [0xFF24]), (0xFF45, [0xFF25]), (0xFF46, [0xFF26]), (0xFF47, [0xFF27]),
     (0xFF48, [0xFF28]), (0xFF49, [0xFF29]), (0xFF4A, [0xFF2A]), (0xFF4B, [0xFF2B]),
     (0xFF4C, [0xFF2C]), (0xFF4D, [0xFF2D]), (0xFF4E, [0xFF2E]), (0xFF4F, [0xFF2F]),
     (0xFF50, [0xFF30]), (0xFF51, [0xFF31]), (0xFF52, [0xFF32]), (0xFF53, [0xFF33]),
     (0xFF54, [0xFF34]), (0xFF55, [0xFF35]), (0xFF56, [0xFF36]), (0xFF57, [0xFF37]),
     (0xFF58, [0xFF38]), (0xFF59, [0xFF39]), (0xFF5A, [0xFF3A]), (0x10428, [0x10400]),
     (0x10429, [0x10401]), (0x1042A, [0x10402]), (0x1042B, [0x10403]), (0x1042C, [0x10404]),
     (0x1042D, [0x10405]), (0x1042E, [0x10406]), (0x1042F, [0x10407]), (0x10430, [0x10408]),
     (0x10431, [0x10409]), (0x10432, [0x1040A]), (0x10433, [0x1040B]), (0x10434, [0x1040C]),
     (0x10435, [0x1040D]), (0x10436, [0x1040E]), (0x10437, [0x1040F]), (0x10438, [0x10410]),
     (0x10439, [0x10411]), (0x1043A, [0x10412]), (0x1043B, [0x10413]), (0x1043C, [0x10414]),
     (0x1043D, [0x10415]), (0x1043E, [0x10416]), (0x1043F, [0x10417]), (0x10440, [0x10418]),
     (0x10441, [0x10419]), (0x10442, [0x1041A]), (0x10443, [0x1041B]), (0x10444, [0x1041C]),
     (0x10445, [0x1041D]), (0x10446, [0x1041E]), (0x10447, [0x1041F]), (0x10448, [0x10420]),
     (0x10449, [0x10421]), (0x1044A, [0x10422]), (0x1044B, [0x10423]), (0x1044C, [0x10424]),
     (0x1044D, [0x10425]), (0x1044E, [0x10426]), (0x1044F, [0x10427]), (0x104D8, [0x104B0])]"

definition upper_part_104D9 :: "(nat \<times> pystr) list" where
  "upper_part_104D9 =
    [(0x104D9, [0x104B1]), (0x104DA, [0x104B2]), (0x104DB, [0x104B3]), (0x104DC, [0x104B4]),
     (0x104DD, [0x104B5]), (0x104DE, [0x104B6]), (0x104DF, [0x104B7]), (0x104E0, [0x104B8]),
     (0x104E1, [0x104B9]), (0x104E2, [0x104BA]), (0x104E3, [0x104BB]), (0x104E4, [0x104BC]),
     (0x104E5, [0x104BD]), (0x104E6, [0x104BE]), (0x104E7, [0x104BF]), (0x104E8, [0x104C0]),
     (0x104E9, [0x104C1]), (0x104EA, [0x104C2]), (0x104EB, [0x104C3]), (0x104EC, [0x104C4]),
     (0x104ED, [0x104C5]), (0x104EE, [0x104C6]), (0x104EF, [0x104C7]), (0x104F0, [0x104C8]),
     (0x104F1, [0x104C9]), (0x104F2, [0x104CA]), (0x104F3, [0x104CB]), (0x104F4, [0x104CC]),
     (0x104F5, [0x104CD]), (0x104F6, [0x104CE]), (0x104F7, [0x104CF]), (0x104F8, [0x104D0]),
     (0x104F9, [0x104D1]), (0x104FA, [0x104D2]), (0x104FB, [0x104D3]), (0x10597, [0x10570]),
     (0x10598, [0x10571]), (0x10599, [0x10572]), (0x1059A, [0x10573]), (0x1059B, [0x10574]),
     (0x1059C, [0x10575]), (0x1059D, [0x10576]), (0x1059E, [0x10577]), (0x1059F, [0x10578]),
     (0x105A0, [0x10579]), (0x105A1, [0x1057A]), (0x105A3, [0x1057C]), (0x105A4, [0x1057D]),
     (0x105A5, [0x1057E]), (0x105A6, [0x1057F]), (0x105A7, [0x10580]), (0x105A8, [0x10581]),
     (0x105A9, [0x10582]), (0x105AA, [0x10583]), (0x105AB, [0x10584]), (0x105AC, [0x10585]),
     (0x105AD, [0x10586]), (0x105AE, [0x10587]), (0x105AF, [0x10588]), (0x105B0, [0x10589]),
     (0x105B1, [0x1058A]), (0x105B3, [0x1058C]), (0x105B4, [0x1058D]), (0x105B5, [0x1058E]),
     (0x105B6, [0x1058F]), (0x105B7, [0x10590]), (0x105B8, [0x10591]), (0x105B9, [0x10592]),
     (0x105BB, [0x10594]), (0x105BC, [0x10595]), (0x10CC0, [0x10C80]), (0x10CC1, [0x10C81]),
     (0x10CC2, [0x10C82]), (0x10CC3, [0x10C83]), (0x10CC4, [0x10C84]), (0x10CC5, [0x10C85]),
     (0x10CC6, [0x10C86]), (0x10CC7, [0x10C87]), (0x10CC8, [0x10C88]), (0x10CC9, [0x10C89])]"

definition upper_part_10CCA :: "(nat \<times> pystr) list" where
  "upper_part_10CCA =
    [(0x10CCA, [0x10C8A]), (0x10CCB, [0x10C8B]), (0x10CCC, [0x10C8C]), (0x10CCD, [0x10C8D]),
     (0x10CCE, [0x10C8E]), (0x10CCF, [0x10C8F]), (0x10CD0, [0x10C90]), (0x10CD1, [0x10C91]),
     (0x10CD2, [0x10C92]), (0x10CD3, [0x10C93]), (0x10CD4, [0x10C94]), (0x10CD5, [0x10C95]),
     (0x10CD6, [0x10C96]), (0x10CD7, [0x10C97]), (0x10CD8, [0x10C98]), (0x10CD9, [0x10C99]),
     (0x10CDA, [0x10C9A]), (0x10CDB, [0x10C9B]), (0x10CDC, [0x10C9C]), (0x10CDD, [0x10C9D]),
     (0x10CDE, [0x10C9E]), (0x10CDF, [0x10C9F]), (0x10CE0, [0x10CA0]), (0x10CE1, [0x10CA1]),
     (0x10CE2, [0x10CA2]), (0x10CE3, [0x10CA3]), (0x10CE4, [0x10CA4]), (0x10CE5, [0x10CA5]),
     (0x10CE6, [0x10CA6]), (0x10CE7, [0x10CA7]), (0x10CE8, [0x10CA8]), (0x10CE9, [0x10CA9]),
     (0x10CEA, [0x10CAA]), (0x10CEB, [0x10CAB]), (0x10CEC, [0x10CAC]), (0x10CED, [0x10CAD]),
     (0x10CEE, [0x10CAE]), (0x10CEF, [0x10CAF]), (0x10CF0, [0x10CB0]), (0x10CF1, [0x10CB1]),
     (0x10CF2, [0x10CB2]), (0x118C0, [0x118A0]), (0x118C1, [0x118A1]), (0x118C2, [0x118A2]),
     (0x118C3, [0x118A3]), (0x118C4, [0x118A4]), (0x118C5, [0x118A5]), (0x118C6, [0x118A6]),
     (0x118C7, [0x118A7]), (0x118C8, [0x118A8]), (0x118C9, [0x118A9]), (0x118CA, [0x118AA]),
     (0x118CB, [0x118AB]), (0x118CC, [0x118AC]), (0x118CD, [0x118AD]), (0x118CE, [0x118AE]),
     (0x118CF, [0x118AF]), (0x118D0, [0x118B0]), (0x118D1, [0x118B1]), (0x118D2, [0x118B2]),
     (0x118D3, [0x118B3]), (0x118D4, [0x118B4]), (0x118D5, [0x118B5]), (0x118D6, [0x118B6]),
     (0x118D7, [0x118B7]), (0x118D8, [0x118B8]), (0x118D9, [0x118B9]), (0x118DA, [0x118BA]),
     (0x118DB, [0x118BB]), (0x118DC, [0x118BC]), (0x118DD, [0x118BD]), (0x118DE, [0x118BE]),
     (0x118DF, [0x118BF]), (0x16E60, [0x16E40]), (0x16E61, [0x16E41]), (0x16E62, [0x16E42]),
     (0x16E63, [0x16E43]), (0x16E64, [0x16E44]), (0x16E65, [0x16E45]), (0x16E66, [0x16E46])]"

definition upper_part_16E67 :: "(nat \<times> pystr) list" where
  "upper_part_16E67 =
    [(0x16E67, [0x16E47]), (0x16E68, [0x16E48]), (0x16E69, [0x16E49]), (0x16E6A, [0x16E4A]),
     (0x16E6B, [0x16E4B]), (0x16E6C, [0x16E4C]), (0x16E6D, [0x16E4D]), (0x16E6E, [0x16E4E]),
     (0x16E6F, [0x16E4F]), (0x16E70, [0x16E50]), (0x16E71, [0x16E51]), (0x16E72, [0x16E52]),
     (0x16E73, [0x16E53]), (0x16E74, [0x16E54]), (0x16E75, [0x16E55]), (0x16E76, [0x16E56]),
     (0x16E77, [0x16E57]), (0x16E78, [0x16E58]), (0x16E79, [0x16E59]), (0x16E7A, [0x16E5A]),
     (0x16E7B, [0x16E5B]), (0x16E7C, [0x16E5C]), (0x16E7D, [0x16E5D]), (0x16E7E, [0x16E5E]),
     (0x16E7F, [0x16E5F]), (0x1E922, [0x1E900]), (0x1E923, [0x1E901]), (0x1E924, [0x1E902]),
     (0x1E925, [0x1E903]), (0x1E926, [0x1E904]), (0x1E927, [0x1E905]), (0x1E928, [0x1E906]),
     (0x1E929, [0x1E907]), (0x1E92A, [0x1E908]), (0x1E92B, [0x1E909]), (0x1E92C, [0x1E90A]),
     (0x1E92D, [0x1E90B]), (0x1E92E, [0x1E90C]), (0x1E92F, [0x1E90D]), (0x1E930, [0x1E90E]),
     (0x1E931, [0x1E90F]), (0x1E932, [0x1E910]), (0x1E933, [0x1E911]), (0x1E934, [0x1E912]),
     (0x1E935, [0x1E913]), (0x1E936, [0x1E914]), (0x1E937, [0x1E915]), (0x1E938, [0x1E916]),
     (0x1E939, [0x1E917]), (0x1E93A, [0x1E918]), (0x1E93B, [0x1E919]), (0x1E93C, [0x1E91A]),
     (0x1E93D, [0x1E91B]), (0x1E93E, [0x1E91C]), (0x1E93F, [0x1E91D]), (0x1E940, [0x1E91E]),
     (0x1E941, [0x1E91F]), (0x1E942, [0x1E920]), (0x1E943, [0x1E921])]"

definition upper_part :: "nat \<Rightarrow> (nat \<times> pystr) list" where
  "upper_part c =
     (if c < 0x80 then upper_part_0061
      else if c < 0x15F then upper_part_00B5
      else if c < 0x215 then upper_part_015F
      else if c < 0x3B7 then upper_part_0215
      else if c < 0x450 then upper_part_03B7
      else if c < 0x4E9 then upper_part_0450
      else if c < 0x10D5 then upper_part_04E9
      else if c < 0x1E2B then upper_part_10D5
      else if c < 0x1EC9 then upper_part_1E2B
      else if c < 0x1F70 then upper_part_1EC9
      else if c < 0x1FD3 then upper_part_1F70
      else if c < 0x2C43 then upper_part_1FD3
      else if c < 0x2CD7 then upper_part_2C43
      else if c < 0xA68F then upper_part_2CD7
      else if c < 0xAB53 then upper_part_A68F
      else if c < 0xABBF then upper_part_AB53
      else if c < 0x104D9 then upper_part_ABBF
      else if c < 0x10CCA then upper_part_104D9
      else if c < 0x16E67 then upper_part_10CCA
      else upper_part_16E67)"

definition upper_cp :: "nat \<Rightarrow> pystr" where
  "upper_cp c = (case map_of (upper_part c) c of Some u \<Rightarrow> u | None \<Rightarrow> [c])"

definition py_upper :: "pystr \<Rightarrow> pystr" where
  "py_upper s = concat (map upper_cp s)"

text \<open>\<open>replace_cp\<close> is \<open>str.replace\<close> of one character by one character.\<close>

definition replace_cp :: "nat \<Rightarrow> nat \<Rightarrow> pystr \<Rightarrow> pystr" where
  "replace_cp old new s = map (\<lambda>c. if c = old then new else c) s"

text \<open>
  \<open>normalize_prefix(name)\<close>: \<open>(name or "")\<close>, then \<open>upper\<close> and the two replacements.
  The argument is whatever the caller passes; a true value that is not a string has
  no \<open>upper\<close>.
\<close>

definition normalize_prefix :: "pyval \<Rightarrow> py_error + pystr" where
  "normalize_prefix name =
     (case (if truthy name then name else PStr []) of
        PStr s \<Rightarrow> Inr (replace_cp 0x20 0x5F (replace_cp 0x2D 0x5F (py_upper s)))
      | _ \<Rightarrow> Inl AttributeError)"

text \<open>
  The environment. \<open>os.getenv(key, default)\<close> encodes the key as the file system
  encoding has it (UTF-8 with the \<open>surrogateescape\<close> handler, on a POSIX system) and
  raises \<open>UnicodeEncodeError\<close> when the key holds a surrogate other than
  U+DC80 to U+DCFF; otherwise it is the value of the variable, or the default.
\<close>

type_synonym environ = "pystr \<Rightarrow> pystr option"

definition lone_surrogate :: "nat \<Rightarrow> bool" where
  "lone_surrogate c \<longleftrightarrow> 0xD800 \<le> c \<and> c \<le> 0xDFFF \<and> \<not> (0xDC80 \<le> c \<and> c \<le> 0xDCFF)"

definition encodable :: "pystr \<Rightarrow> bool" where
  "encodable s = (\<not> list_ex lone_surrogate s)"

definition environ_get :: "environ \<Rightarrow> pystr \<Rightarrow> pystr \<Rightarrow> pystr" where
  "environ_get env key dflt = (case env key of Some v \<Rightarrow> v | None \<Rightarrow> dflt)"

definition getenv :: "environ \<Rightarrow> pystr \<Rightarrow> pystr \<Rightarrow> py_error + pystr" where
  "getenv env key dflt =
     (if encodable key then Inr (environ_get env key dflt) else Inl UnicodeEncodeError)"

text \<open>
  The strings of \<open>sys.argv\<close> and of \<open>os.environ\<close> are made by the interpreter, which
  decodes the bytes of the operating system with the same handler: they hold no
  surrogate other than U+DC80 to U+DCFF. \<open>decoded\<close> is the identity on such a string,
  and makes every string of the model one.
\<close>

definition decoded :: "pystr \<Rightarrow> pystr" where
  "decoded s = filter (\<lambda>c. \<not> lone_surrogate c) s"

text \<open>
  What a run of \<open>main\<close> comes to: \<open>sys.exit(code)\<close> after a printed message, an
  exception that nothing catches, or the call of the engine,
  \<open>BaseTestEngine(project_config).run_test(resolved_steps)\<close>, with its two arguments.
\<close>

datatype outcome =
    Exit nat pystr
  | Raised py_error
  | Ran pydict "pydict list"

text \<open>
  The name of the project that the caller gives: the third word of the command line,
  or one of three variables, whose names are ASCII and are encoded without an error.
\<close>

definition project_name_of :: "pystr list \<Rightarrow> environ \<Rightarrow> pystr" where
  "project_name_of argv env =
     decoded
       (if length argv > 2 then argv ! 2
        else environ_get env (str ''PROJECT'')
               (environ_get env (str ''TARGET'') (environ_get env (str ''BRAND'') (str ''UNKNOWN''))))"

definition project_block :: "pydict \<Rightarrow> pyval" where
  "project_block data =
     dict_get data (PStr (str ''PROJECT_CONFIG''))
       (dict_get data (PStr (str ''TARGET_CONFIG''))
          (dict_get data (PStr (str ''BRAND_CONFIG'')) (PDict [])))"

text \<open>
  Lines 40 and 41: \<open>if "name" not in project_config: project_config["name"] = project_name\<close>.
  On a dictionary this adds the key when it is absent. A block that is not a
  dictionary ends in an exception: \<open>in\<close> raises \<open>TypeError\<close> on \<open>None\<close>, a boolean or
  a number; on a string (substring test) or a list (membership test) the assignment
  raises \<open>TypeError\<close> when the test fails, and when it succeeds the next use of the
  block, \<open>.get\<close> or \<open>.setdefault\<close>, raises \<open>AttributeError\<close>.
\<close>

fun with_name :: "pyval \<Rightarrow> pystr \<Rightarrow> py_error + pydict" where
  "with_name (PDict pc) project_name =
     Inr (if dict_contains pc (PStr (str ''name'')) then pc
          else dict_setitem pc (PStr (str ''name'')) (PStr project_name))"
| "with_name (PStr s) project_name =
     Inl (if py_in (str ''name'') s then AttributeError else TypeError)"
| "with_name (PList xs) project_name =
     Inl (if PStr (str ''name'') \<in> set xs then AttributeError else TypeError)"
| "with_name _ project_name = Inl TypeError"

definition default_ua :: pystr where
  "default_ua = str ''Mozilla/5.0 (Macintosh; Intel Mac OS X 10_15_7) AppleWebKit/537.36 (KHTML, like Gecko) Chrome/126.0.0.0 Safari/537.36''"

text \<open>
  Lines 46 to 48: the three \<open>setdefault\<close> calls, each with the value of \<open>os.getenv\<close>
  as its second argument, which is computed also when the key is there.
\<close>

definition inject_env :: "pystr \<Rightarrow> environ \<Rightarrow> pydict \<Rightarrow> py_error + pydict" where
  "inject_env pfx env pc =
     (case getenv env (pfx @ str ''_EMAIL'') [] of
        Inl e \<Rightarrow> Inl e
      | Inr email \<Rightarrow>
          (case getenv env (pfx @ str ''_PASSWORD'') [] of
             Inl e \<Rightarrow> Inl e
           | Inr password \<Rightarrow>
               (case getenv env (pfx @ str ''_USER_AGENT'') default_ua of
                  Inl e \<Rightarrow> Inl e
                | Inr user_agent \<Rightarrow>
                    Inr (dict_setdefault
                           (dict_setdefault
                              (dict_setdefault pc (PStr (str ''email'')) (PStr email))
                              (PStr (str ''password'')) (PStr password))
                           (PStr (str ''user_agent'')) (PStr user_agent)))))"

text \<open>The body of the loop over the steps, after \<open>st = dict(step)\<close>.\<close>

definition resolve_tokens :: "pydict \<Rightarrow> pydict \<Rightarrow> pydict" where
  "resolve_tokens project_config st =
     (if dict_lookup st (PStr (str ''action'')) = Some (PStr (str ''fill''))
      then (case dict_lookup st (PStr (str ''value'')) of
              Some (PStr val) \<Rightarrow>
                if val = str ''$EMAIL''
                then dict_setitem st (PStr (str ''value''))
                       (dict_get project_config (PStr (str ''email'')) (PStr []))
                else if val = str ''$PASSWORD''
                then dict_setitem st (PStr (str ''value''))
                       (dict_get project_config (PStr (str ''password'')) (PStr []))
                else st
            | _ \<Rightarrow> st)
      else st)"

fun resolve_steps :: "pydict \<Rightarrow> pyval list \<Rightarrow> py_error + pydict list" where
  "resolve_steps project_config [] = Inr []"
| "resolve_steps project_config (step # rest) =
     (case py_dict step of
        Inl e \<Rightarrow> Inl e
      | Inr st \<Rightarrow>
          (case resolve_steps project_config rest of
             Inl e \<Rightarrow> Inl e
           | Inr resolved \<Rightarrow> Inr (resolve_tokens project_config st # resolved)))"

text \<open>
  \<open>main\<close>, from the command line \<open>argv\<close>, the environment and the file system: \<open>fs path\<close>
  is what \<open>open(path)\<close> followed by \<open>json.load\<close> gives, the parsed document or the
  exception of either.
\<close>

definition main :: "pystr list \<Rightarrow> environ \<Rightarrow> (pystr \<Rightarrow> py_error + pyval) \<Rightarrow> outcome" where
  "main argv env fs =
     (if length argv < 2
      then Exit 1 (str ''Usage: json_runner.py <flow.json> [PROJECT_NAME]'')
      else
        let json_path = argv ! 1;
            project_name = project_name_of argv env
        in case fs json_path of
             Inl e \<Rightarrow> Raised e
           | Inr (PDict data) \<Rightarrow>
               (case with_name (project_block data) project_name of
                  Inl e \<Rightarrow> Raised e
                | Inr named \<Rightarrow>
                    (case normalize_prefix
                            (if project_name \<noteq> [] then PStr project_name
                             else dict_get named (PStr (str ''name'')) (PStr [])) of
                       Inl e \<Rightarrow> Raised e
                     | Inr pfx \<Rightarrow>
                         (case inject_env pfx env named of
                            Inl e \<Rightarrow> Raised e
                          | Inr project_config \<Rightarrow>
                              (case dict_get data (PStr (str ''TEST_STEPS'')) (PList []) of
                                 PList (s # ss) \<Rightarrow>
                                   (case resolve_steps project_config (s # ss) of
                                      Inl e \<Rightarrow> Raised e
                                    | Inr resolved_steps \<Rightarrow> Ran project_config resolved_steps)
                               | _ \<Rightarrow> Exit 2 (str ''No TEST_STEPS found in JSON flow'')))))
           | Inr _ \<Rightarrow> Raised AttributeError)"

section \<open>The duration of a run (\<open>gui.py\<close>, \<open>calculate_test_duration\<close>)\<close>

text \<open>
  The steps of \<open>summary.json\<close> as the function reads them: each may have a \<open>start\<close>
  and an \<open>end\<close>, which are numbers. \<open>'n\<close> is the type of these numbers with Python's
  order and subtraction, so that what is proved holds for integers and for floats
  with the subtraction of the machine.
\<close>

record 'n step_result =
  step_start :: "'n option"
  step_end :: "'n option"

text \<open>
  The file \<open>summary.json\<close> of a run directory: absent (\<open>os.path.exists\<close> is false),
  present but raising when it is opened, parsed or read as a summary (the outer
  \<open>try\<close> catches every exception and returns 1), or holding a list of steps.
\<close>

datatype 'n summary_file = NoSummary | Unreadable | Summary "'n step_result list"

text \<open>
  The number returned: computed from the steps, in their number type, or an integer
  of seconds.
\<close>

datatype 'n duration = Span 'n | Seconds int

text \<open>\<open>min\<close> and \<open>max\<close> of a list, which raise \<open>ValueError\<close> on the empty list.\<close>

fun py_min :: "'a::linorder list \<Rightarrow> 'a option" where
  "py_min [] = None"
| "py_min (x # xs) = Some (foldl (\<lambda>m y. if y < m then y else m) x xs)"

fun py_max :: "'a::linorder list \<Rightarrow> 'a option" where
  "py_max [] = None"
| "py_max (x # xs) = Some (foldl (\<lambda>m y. if m < y then y else m) x xs)"

text \<open>\<open>s.split(sep)\<close> for a separator of one character.\<close>

fun split_cp :: "nat \<Rightarrow> pystr \<Rightarrow> pystr list" where
  "split_cp sep [] = [[]]"
| "split_cp sep (c # cs) =
     (if c = sep then [] # split_cp sep cs
      else case split_cp sep cs of
             w # ws \<Rightarrow> (c # w) # ws
           | [] \<Rightarrow> [[c]])"

text \<open>
  \<open>int(s)\<close> in base ten, where \<open>None\<close> is \<open>ValueError\<close>. A digit is a code point with a
  decimal value in the Unicode table of the interpreter (Unicode 14.0): the 66 runs of
  ten digits that start at the code points of \<open>digit_zeros\<close>. White space around the
  number is skipped: the six ASCII characters of C's \<open>isspace\<close>, and the white space
  outside ASCII. Then come an optional sign and the digits, with single underscores
  between them, and no more than 4300 digits, the limit of the interpreter.
\<close>

definition digit_zeros :: "nat list" where
  "digit_zeros =
    [0x30, 0x660, 0x6F0, 0x7C0, 0x966, 0x9E6, 0xA66, 0xAE6, 0xB66, 0xBE6, 0xC66, 0xCE6, 0xD66,
     0xDE6, 0xE50, 0xED0, 0xF20, 0x1040, 0x1090, 0x17E0, 0x1810, 0x1946, 0x19D0, 0x1A80,
     0x1A90, 0x1B50, 0x1BB0, 0x1C40, 0x1C50, 0xA620, 0xA8D0, 0xA900, 0xA9D0, 0xA9F0, 0xAA50,
     0xABF0, 0xFF10, 0x104A0, 0x10D30, 0x11066, 0x110F0, 0x11136, 0x111D0, 0x112F0, 0x11450,
     0x114D0, 0x11650, 0x116C0, 0x11730, 0x118E0, 0x11950, 0x11C50, 0x11D50, 0x11DA0, 0x16A60,
     0x16AC0, 0x16B50, 0x1D7CE, 0x1D7D8, 0x1D7E2, 0x1D7EC, 0x1D7F6, 0x1E140, 0x1E2F0, 0x1E950,
     0x1FBF0]"

definition digit_value :: "nat \<Rightarrow> nat option" where
  "digit_value c = map_option (\<lambda>z. c - z) (find (\<lambda>z. z \<le> c \<and> c \<le> z + 9) digit_zeros)"

definition int_space :: "nat \<Rightarrow> bool" where
  "int_space c \<longleftrightarrow> (0x09 \<le> c \<and> c \<le> 0x0D) \<or> c = 0x20 \<or> (0x80 \<le> c \<and> py_isspace c)"

fun digits_acc :: "nat list \<Rightarrow> pystr \<Rightarrow> nat list option" where
  "digits_acc acc [] = Some acc"
| "digits_acc acc [c] = map_option (\<lambda>v. acc @ [v]) (digit_value c)"
| "digits_acc acc (c # d # cs) =
     (case digit_value c of
        Some v \<Rightarrow> digits_acc (acc @ [v]) (d # cs)
      | None \<Rightarrow>
          if c = 0x5F
          then (case digit_value d of
                  Some w \<Rightarrow> digits_acc (acc @ [w]) cs
                | None \<Rightarrow> None)
          else None)"

fun py_digits :: "pystr \<Rightarrow> nat list option" where
  "py_digits [] = None"
| "py_digits (c # cs) =
     (case digit_value c of Some v \<Rightarrow> digits_acc [v] cs | None \<Rightarrow> None)"

definition int_of_digits :: "nat list option \<Rightarrow> int option" where
  "int_of_digits ds =
     (case ds of
        None \<Rightarrow> None
      | Some vs \<Rightarrow>
          if length vs > 4300 then None
          else Some (int (foldl (\<lambda>a v. 10 * a + v) 0 vs)))"

definition py_int :: "pystr \<Rightarrow> int option" where
  "py_int s =
     (case rev (dropWhile int_space (rev (dropWhile int_space s))) of
        [] \<Rightarrow> None
      | c # cs \<Rightarrow>
          if c = 0x2D then map_option uminus (int_of_digits (py_digits cs))
          else if c = 0x2B then int_of_digits (py_digits cs)
          else int_of_digits (py_digits (c # cs)))"

text \<open>
  One line of the log: the seconds of its \<open>[HH:MM:SS]\<close> stamp, or \<open>None\<close> when the line
  adds nothing to \<open>timestamps\<close>.
\<close>

definition line_timestamp :: "pystr \<Rightarrow> int option" where
  "line_timestamp line =
     (if startswith line (str ''['') \<and> py_in (str '']'') line
      then (case split_cp 0x5D line of
              [] \<Rightarrow> None
            | piece # _ \<Rightarrow>
                let time_str = drop 1 piece;
                    time_parts = split_cp 0x3A time_str
                in (case time_parts of
                      [h, m, s] \<Rightarrow>
                        (case (py_int h, py_int m, py_int s) of
                           (Some hours, Some minutes, Some seconds) \<Rightarrow>
                             Some (hours * 3600 + minutes * 60 + seconds)
                         | _ \<Rightarrow> None)
                    | _ \<Rightarrow> None))
      else None)"

definition log_duration :: "pystr \<Rightarrow> int" where
  "log_duration log_content =
     (let timestamps = List.map_filter line_timestamp (split_cp 0x0A log_content)
      in if length timestamps \<ge> 2
         then (let duration = last timestamps - hd timestamps;
                   duration = (if duration < 0 then duration + 24 * 3600 else duration)
               in max duration 1)
         else 1)"

text \<open>
  \<open>calculate_test_duration(log_content, log_dir)\<close>; \<open>summary_of dir\<close> is the file
  \<open>summary.json\<close> of the directory. The caller, \<open>create_test_summary\<close>, writes the
  result to the summary of the run under \<open>durationSec\<close>.
\<close>

definition steps_duration :: "('n::{linorder,minus,zero,one}) step_result list \<Rightarrow> 'n option" where
  "steps_duration steps =
     (let start_times = List.map_filter step_start steps;
          end_times = List.map_filter step_end steps
      in case (py_min start_times, py_max end_times) of
           (Some first_start, Some last_end) \<Rightarrow>
             if first_start \<noteq> 0 \<and> last_end \<noteq> 0
             then Some (max (last_end - first_start) 1)
             else None
         | _ \<Rightarrow> None)"

definition calculate_test_duration ::
  "pystr \<Rightarrow> pystr option \<Rightarrow> (pystr \<Rightarrow> ('n::{linorder,minus,zero,one}) summary_file) \<Rightarrow> 'n duration"
where
  "calculate_test_duration log_content log_dir summary_of =
     (case (case log_dir of
              None \<Rightarrow> NoSummary
            | Some dir \<Rightarrow> if dir = [] then NoSummary else summary_of dir) of
        Unreadable \<Rightarrow> Seconds 1
      | NoSummary \<Rightarrow> Seconds (log_duration log_content)
      | Summary steps \<Rightarrow>
          (case steps_duration steps of
             Some d \<Rightarrow> Span d
           | None \<Rightarrow> Seconds (log_duration log_content)))"

section \<open>The step schema of the specification\<close>



section \<open>Concrete runs\<close>

text \<open>
  Scenario B of the specification: project \<open>acme\<close>, the variable \<open>ACME_EMAIL\<close> set, and a
  flow of three steps whose second fills in \<open>$EMAIL\<close>.
\<close>

definition argv_acme :: "pystr list" where
  "argv_acme = [str ''tests/json_runner.py'', str ''flow.json'', str ''acme'']"

definition env_acme :: environ where
  "env_acme = (\<lambda>k. if k = str ''ACME_EMAIL'' then Some (str ''test@x.com'') else None)"

definition env_none :: environ where
  "env_none = (\<lambda>k. None)"

definition step_navigate :: pydict where
  "step_navigate =
     [(PStr (str ''action''), PStr (str ''navigate'')), (PStr (str ''url''), PStr (str ''https://x.com''))]"

definition step_fill_email :: pydict where
  "step_fill_email =
     [(PStr (str ''action''), PStr (str ''fill'')), (PStr (str ''selector''), PStr (str ''#email'')),
      (PStr (str ''value''), PStr (str ''$EMAIL''))]"

definition step_click :: pydict where
  "step_click =
     [(PStr (str ''action''), PStr (str ''click'')), (PStr (str ''selector''), PStr (str ''#login''))]"

definition doc_acme :: pydict where
  "doc_acme =
     [(PStr (str ''PROJECT_CONFIG''), PDict [(PStr (str ''name''), PStr (str ''acme''))]),
      (PStr (str ''TEST_STEPS''), PList [PDict step_navigate, PDict step_fill_email, PDict step_click])]"

definition fs_acme :: "pystr \<Rightarrow> py_error + pyval" where
  "fs_acme = (\<lambda>path. if path = str ''flow.json'' then Inr (PDict doc_acme) else Inl OSError)"

text \<open>What the engine is called with in that run.\<close>

definition cfg_acme :: pydict where
  "cfg_acme =
     [(PStr (str ''name''), PStr (str ''acme'')), (PStr (str ''email''), PStr (str ''test@x.com'')),
      (PStr (str ''password''), PStr []), (PStr (str ''user_agent''), PStr default_ua)]"

definition step_fill_resolved :: pydict where
  "step_fill_resolved =
     [(PStr (str ''action''), PStr (str ''fill'')), (PStr (str ''selector''), PStr (str ''#email'')),
      (PStr (str ''value''), PStr (str ''test@x.com''))]"

text \<open>
  A project whose name has a letter outside ASCII (U+00E9), a hyphen and a space, with
  the prefix of its variables, and its email in the environment. The flow is the one
  with no project block, below.
\<close>

definition cafe_name :: pystr where
  "cafe_name = str ''caf'' @ [0xE9] @ str ''-shop eu''"

definition cafe_prefix :: pystr where
  "cafe_prefix = str ''CAF'' @ [0xC9] @ str ''_SHOP_EU''"

definition argv_cafe :: "pystr list" where
  "argv_cafe = [str ''tests/json_runner.py'', str ''flow.json'', cafe_name]"

definition env_cafe :: environ where
  "env_cafe = (\<lambda>k. if k = cafe_prefix @ str ''_EMAIL'' then Some (str ''cafe@x.com'') else None)"

definition cfg_cafe :: pydict where
  "cfg_cafe =
     [(PStr (str ''name''), PStr cafe_name), (PStr (str ''email''), PStr (str ''cafe@x.com'')),
      (PStr (str ''password''), PStr []), (PStr (str ''user_agent''), PStr default_ua)]"

text \<open>The same project with a step list that is empty.\<close>

definition doc_no_steps :: pydict where
  "doc_no_steps =
     [(PStr (str ''PROJECT_CONFIG''), PDict [(PStr (str ''name''), PStr (str ''acme''))]),
      (PStr (str ''TEST_STEPS''), PList [])]"

definition fs_no_steps :: "pystr \<Rightarrow> py_error + pyval" where
  "fs_no_steps = (\<lambda>path. if path = str ''flow.json'' then Inr (PDict doc_no_steps) else Inl OSError)"

text \<open>
  A flow whose only step has an action that does not exist, no target and a timeout
  of zero.
\<close>

definition step_teleport :: pydict where
  "step_teleport =
     [(PStr (str ''name''), PStr (str ''jump'')), (PStr (str ''action''), PStr (str ''teleport'')),
      (PStr (str ''timeout''), PInt 0)]"

definition doc_teleport :: pydict where
  "doc_teleport =
     [(PStr (str ''PROJECT_CONFIG''), PDict [(PStr (str ''name''), PStr (str ''acme''))]),
      (PStr (str ''TEST_STEPS''), PList [PDict step_teleport])]"

definition fs_teleport :: "pystr \<Rightarrow> py_error + pyval" where
  "fs_teleport = (\<lambda>path. if path = str ''flow.json'' then Inr (PDict doc_teleport) else Inl OSError)"

text \<open>A flow whose project block names the project with the empty string.\<close>

definition doc_empty_name :: pydict where
  "doc_empty_name =
     [(PStr (str ''PROJECT_CONFIG''), PDict [(PStr (str ''name''), PStr [])]),
      (PStr (str ''TEST_STEPS''), PList [PDict step_click])]"

definition fs_empty_name :: "pystr \<Rightarrow> py_error + pyval" where
  "fs_empty_name = (\<lambda>path. if path = str ''flow.json'' then Inr (PDict doc_empty_name) else Inl OSError)"

text \<open>A flow with no project block at all.\<close>

definition doc_bare :: pydict where
  "doc_bare = [(PStr (str ''TEST_STEPS''), PList [PDict step_click])]"

definition fs_bare :: "pystr \<Rightarrow> py_error + pyval" where
  "fs_bare = (\<lambda>path. if path = str ''flow.json'' then Inr (PDict doc_bare) else Inl OSError)"

text \<open>A flow whose project block carries its own email.\<close>

definition block_own_email :: pydict where
  "block_own_email =
     [(PStr (str ''name''), PStr (str ''acme'')), (PStr (str ''email''), PStr (str ''doc@x.com''))]"

definition doc_own_email :: pydict where
  "doc_own_email =
     [(PStr (str ''PROJECT_CONFIG''), PDict block_own_email),
      (PStr (str ''TEST_STEPS''), PList [PDict step_fill_email])]"

definition fs_own_email :: "pystr \<Rightarrow> py_error + pyval" where
  "fs_own_email = (\<lambda>path. if path = str ''flow.json'' then Inr (PDict doc_own_email) else Inl OSError)"

text \<open>What the engine is called with in the runs of the last flows.\<close>

definition cfg_empty_name :: pydict where
  "cfg_empty_name =
     [(PStr (str ''name''), PStr []), (PStr (str ''email''), PStr (str ''test@x.com'')),
      (PStr (str ''password''), PStr []), (PStr (str ''user_agent''), PStr default_ua)]"

definition cfg_own_email :: pydict where
  "cfg_own_email =
     [(PStr (str ''name''), PStr (str ''acme'')), (PStr (str ''email''), PStr (str ''doc@x.com'')),
      (PStr (str ''password''), PStr []), (PStr (str ''user_agent''), PStr default_ua)]"

definition step_fill_own :: pydict where
  "step_fill_own =
     [(PStr (str ''action''), PStr (str ''fill'')), (PStr (str ''selector''), PStr (str ''#email'')),
      (PStr (str ''value''), PStr (str ''doc@x.com''))]"

text \<open>
  Summaries: one step that starts and ends in the same second, and two steps that
  overlap (100 to 103 and 102 to 110).
\<close>

definition summary_same_second :: "pystr \<Rightarrow> int summary_file" where
  "summary_same_second = (\<lambda>dir. Summary [\<lparr>step_start = Some 100, step_end = Some 100\<rparr>])"

definition summary_overlap :: "pystr \<Rightarrow> int summary_file" where
  "summary_overlap =
     (\<lambda>dir. Summary [\<lparr>step_start = Some 100, step_end = Some 103\<rparr>,
                     \<lparr>step_start = Some 102, step_end = Some 110\<rparr>])"

section \<open>Evaluation of the string tests\<close>

lemmas str_eval =
  str_def py_strip_def py_isspace_def py_lower_def lower_cp_def startswith_def py_in_def
  ballot_x_def cross_mark_def

lemmas classify_eval = classify_line_def is_explicit_fail_def str_eval

lemma dropWhile_py_strip: "dropWhile py_isspace (py_strip s) = py_strip s"
proof -
  let ?ys = "dropWhile py_isspace s"
  have ys: "?ys = [] \<or> \<not> py_isspace (hd ?ys)"
    by (metis dropWhile_eq_self_iff dropWhile_idem)
  have parts: "?ys = py_strip s @ rev (takeWhile py_isspace (rev ?ys))"
    unfolding py_strip_def
    by (metis rev_append rev_rev_ident takeWhile_dropWhile_id)
  show ?thesis
  proof (cases "py_strip s = []")
    case True
    then show ?thesis by simp
  next
    case False
    then have "hd ?ys = hd (py_strip s)"
      using parts by (metis hd_append2)
    moreover have "?ys \<noteq> []"
      using False parts by (metis append_is_Nil_conv)
    ultimately have "\<not> py_isspace (hd (py_strip s))"
      using ys by auto
    then show ?thesis by (simp add: dropWhile_eq_self_iff)
  qed
qed

lemma py_strip_idem: "py_strip (py_strip s) = py_strip s"
proof -
  have "py_strip (py_strip s) = rev (dropWhile py_isspace (rev (py_strip s)))"
    by (simp add: py_strip_def[of "py_strip s"] dropWhile_py_strip)
  also have "\<dots> = py_strip s"
    by (simp add: py_strip_def dropWhile_idem)
  finally show ?thesis .
qed

lemma classify_line_empty: "classify_line [] = Info"
  by (simp add: classify_eval)

section \<open>The classifier\<close>

text \<open>
  C1, as amended. A line is logged as an error exactly when, after the surrounding
  white space is stripped, it begins with one of the glyphs U+2717 and U+274C or with
  \<open>ERROR\<close>, or contains \<open>] ERROR\<close>, or its lower case contains \<open> critical step failed\<close>
  with the space before it, or both \<open>selector\<close> and \<open>not found\<close>, or \<open>timeout\<close> together
  with \<open>failed\<close> or with \<open>selector\<close>. These rules come before the warning rule: a line
  is logged as a warning exactly when it is not an error and its lower case contains
  \<open>warning\<close>.
\<close>

theorem classify_line_error_rules:
  "(classify_line line = Error \<longleftrightarrow>
        prefix ballot_x (py_strip line)
      \<or> prefix cross_mark (py_strip line)
      \<or> prefix (str ''ERROR'') (py_strip line)
      \<or> sublist (str ''] ERROR'') (py_strip line)
      \<or> sublist (str '' critical step failed'') (py_lower (py_strip line))
      \<or> (sublist (str ''selector'') (py_lower (py_strip line))
           \<and> sublist (str ''not found'') (py_lower (py_strip line)))
      \<or> (sublist (str ''timeout'') (py_lower (py_strip line))
           \<and> sublist (str ''failed'') (py_lower (py_strip line)))
      \<or> (sublist (str ''timeout'') (py_lower (py_strip line))
           \<and> sublist (str ''selector'') (py_lower (py_strip line))))
   \<and> (classify_line line = Warning \<longleftrightarrow>
        classify_line line \<noteq> Error
      \<and> sublist (str ''warning'') (py_lower (py_strip line)))"
  by (auto simp: classify_line_def is_explicit_fail_def Let_def py_strip_idem
        startswith_def py_in_def)

theorem classify_line_error_rules_witness:
  "classify_line (str ''  WARNING: timeout waiting for selector #pay'') = Error
   \<and> classify_line (str ''warning: slow response'') = Warning"
  using classify_line_error_rules [of "str ''  WARNING: timeout waiting for selector #pay''"]
    classify_line_error_rules [of "str ''warning: slow response''"]
  by (simp add: str_eval sublist_code)

text \<open>
  C1 as it is stated fails: a line that begins with the words \<open>critical step failed\<close>
  mentions them, and is not logged as an error.
\<close>

theorem critical_step_failed_counterexample:
  "sublist (str ''critical step failed'')
     (py_lower (py_strip (str ''Critical step failed: open the cart'')))
   \<and> classify_line (str ''Critical step failed: open the cart'') \<noteq> Error"
  by (simp add: classify_eval sublist_code)

text \<open>
  C3. The line \<open>Network errors saved to disk\<close> is logged as information. And for every
  line: it is logged as an error only if, stripped, it begins with one of the two
  glyphs or with \<open>ERROR\<close>, or contains \<open>] ERROR\<close>, or its lower case contains \<open>failed\<close>
  or \<open>selector\<close>. A line with none of these is never an error, whatever else it
  holds, the word \<open>error\<close> in any case of letters included: it is a warning when its
  lower case contains \<open>warning\<close>, and information otherwise.
\<close>

theorem error_word_alone_never_triggers:
  "classify_line (str ''Network errors saved to disk'') = Info
   \<and> (\<not> prefix ballot_x (py_strip line) \<and> \<not> prefix cross_mark (py_strip line)
        \<and> \<not> prefix (str ''ERROR'') (py_strip line)
        \<and> \<not> sublist (str ''] ERROR'') (py_strip line)
        \<and> \<not> sublist (str ''failed'') (py_lower (py_strip line))
        \<and> \<not> sublist (str ''selector'') (py_lower (py_strip line))
      \<longrightarrow> classify_line line \<noteq> Error
          \<and> classify_line line =
              (if sublist (str ''warning'') (py_lower (py_strip line)) then Warning else Info))"
proof -
  have d: "classify_line (str ''Network errors saved to disk'') = Info"
    by (simp add: classify_eval sublist_code)
  have "sublist (str ''failed'') (str '' critical step failed'')"
    by (simp add: str_def sublist_code)
  then have c: "sublist (str '' critical step failed'') l \<Longrightarrow> sublist (str ''failed'') l" for l
    by (rule sublist_order.order_trans)
  show ?thesis
    using d c [of "py_lower (py_strip line)"]
    by (auto simp: classify_line_def is_explicit_fail_def Let_def py_strip_idem
          startswith_def py_in_def)
qed

theorem error_word_alone_never_triggers_witness:
  "sublist (str ''error'') (py_lower (py_strip (str ''3 ERRORS and errors saved to error.log'')))
   \<and> classify_line (str ''3 ERRORS and errors saved to error.log'') = Info
   \<and> classify_line (str ''Error: see the error report (warning level)'') = Warning"
  using error_word_alone_never_triggers [of "str ''3 ERRORS and errors saved to error.log''"]
    error_word_alone_never_triggers [of "str ''Error: see the error report (warning level)''"]
  by (simp add: str_eval sublist_code)

section \<open>The status of a run\<close>

lemma test_failed_foldl:
  "test_failed (foldl consume_line st lines) \<longleftrightarrow>
     test_failed st \<or> (\<exists>l\<in>set lines. classify_line l = Error)"
proof (induction lines arbitrary: st)
  case Nil
  then show ?case by simp
next
  case (Cons l ls)
  have "test_failed (consume_line st l) \<longleftrightarrow> test_failed st \<or> classify_line l = Error"
    by (auto simp: consume_line_def Let_def classify_line_empty)
  then show ?case
    using Cons.IH [of "consume_line st l"] by auto
qed

text \<open>
  C2. The status handed to the summary is \<open>failed\<close> exactly when the exit code is not
  zero or some line was logged as an error, and \<open>ok\<close> otherwise.
\<close>

theorem final_status:
  "test_status (consume_test_logs lines returncode) =
     (if returncode \<noteq> 0 \<or> (\<exists>l\<in>set lines. classify_line l = Error)
      then ''failed'' else ''ok'')"
  by (auto simp: consume_test_logs_def Let_def test_failed_foldl)

lemma classify_cross_bad: "classify_line (cross_mark @ str '' checkout broke'') = Error"
  by (simp add: classify_eval sublist_code)

lemma classify_opening: "classify_line (str ''opening the shop'') = Info"
  by (simp add: classify_eval sublist_code)

theorem final_status_witness:
  "test_status (consume_test_logs [str ''opening the shop'', cross_mark @ str '' checkout broke''] 0)
     = ''failed''
   \<and> test_status (consume_test_logs [str ''opening the shop''] 3) = ''failed''
   \<and> test_status (consume_test_logs [str ''opening the shop''] 0) = ''ok''"
  using final_status [of "[str ''opening the shop'', cross_mark @ str '' checkout broke'']" 0]
    final_status [of "[str ''opening the shop'']" 3]
    final_status [of "[str ''opening the shop'']" 0]
  by (simp add: classify_cross_bad classify_opening)

section \<open>Dictionaries\<close>

lemma py_key_eq_PStr [simp]:
  "py_key_eq (PStr a) k \<longleftrightarrow> k = PStr a"
  "py_key_eq k (PStr a) \<longleftrightarrow> k = PStr a"
  by (cases k; auto simp: py_key_eq_def)+

lemma lookup_setitem:
  "dict_lookup (dict_setitem d (PStr a) v) k = (if k = PStr a then Some v else dict_lookup d k)"
  by (induction d) auto

lemma lookup_setdefault:
  "dict_lookup (dict_setdefault d (PStr a) v) k =
     (case dict_lookup d k of Some x \<Rightarrow> Some x | None \<Rightarrow> if k = PStr a then Some v else None)"
  by (auto simp: dict_setdefault_def dict_contains_def lookup_setitem split: option.splits)

lemma str_inj: "str a = str b \<longleftrightarrow> a = b"
  by (simp add: str_def inj_map_eq_map inj_on_def)

lemma encodable_append [simp]: "encodable (a @ b) \<longleftrightarrow> encodable a \<and> encodable b"
  by (auto simp: encodable_def list_ex_iff)

lemma encodable_suffixes [simp]:
  "encodable (str ''_EMAIL'')" "encodable (str ''_PASSWORD'')" "encodable (str ''_USER_AGENT'')"
  by (simp_all add: encodable_def lone_surrogate_def str_def)

lemma inject_env_encodable:
  "encodable pfx \<Longrightarrow>
     inject_env pfx env pc =
       Inr (dict_setdefault
              (dict_setdefault
                 (dict_setdefault pc (PStr (str ''email''))
                    (PStr (environ_get env (pfx @ str ''_EMAIL'') [])))
                 (PStr (str ''password'')) (PStr (environ_get env (pfx @ str ''_PASSWORD'') [])))
              (PStr (str ''user_agent''))
              (PStr (environ_get env (pfx @ str ''_USER_AGENT'') default_ua)))"
  by (simp add: inject_env_def getenv_def)

lemma inject_env_not_encodable:
  "\<not> encodable pfx \<Longrightarrow> inject_env pfx env pc = Inl UnicodeEncodeError"
  by (simp add: inject_env_def getenv_def)

lemma inject_env_InrD: "inject_env pfx env pc = Inr cfg \<Longrightarrow> encodable pfx"
  using inject_env_not_encodable [of pfx env pc] by (cases "encodable pfx") auto

lemma lookup_inject_env:
  assumes "inject_env pfx env pc = Inr cfg"
  shows "dict_lookup cfg k =
     (case dict_lookup pc k of
        Some x \<Rightarrow> Some x
      | None \<Rightarrow>
          if k = PStr (str ''email'') then Some (PStr (environ_get env (pfx @ str ''_EMAIL'') []))
          else if k = PStr (str ''password'')
          then Some (PStr (environ_get env (pfx @ str ''_PASSWORD'') []))
          else if k = PStr (str ''user_agent'')
          then Some (PStr (environ_get env (pfx @ str ''_USER_AGENT'') default_ua))
          else None)"
proof -
  have "encodable pfx" using assms by (rule inject_env_InrD)
  from inject_env_encodable [OF this, of env pc] assms show ?thesis
    by (auto simp: lookup_setdefault str_inj split: option.splits)
qed

lemma resolve_steps_Inr:
  "resolve_steps pc ss = Inr rs \<Longrightarrow>
     length rs = length ss \<and> (\<forall>i<length ss. \<exists>st. py_dict (ss ! i) = Inr st \<and> rs ! i = resolve_tokens pc st)"
proof (induction ss arbitrary: rs)
  case Nil
  then show ?case by simp
next
  case (Cons s ss)
  from Cons.prems obtain st rs' where st: "py_dict s = Inr st"
    and rs': "resolve_steps pc ss = Inr rs'" and rs: "rs = resolve_tokens pc st # rs'"
    by (auto split: sum.splits)
  from Cons.IH[OF rs'] have ih: "length rs' = length ss"
     "\<forall>i<length ss. \<exists>st. py_dict (ss ! i) = Inr st \<and> rs' ! i = resolve_tokens pc st" by auto
  show ?case
  proof (intro conjI allI impI)
    show "length rs = length (s # ss)" using ih rs by simp
  next
    fix i assume "i < length (s # ss)"
    then show "\<exists>st. py_dict ((s # ss) ! i) = Inr st \<and> rs ! i = resolve_tokens pc st"
      using st rs ih by (cases i) auto
  qed
qed


lemma resolve_steps_ok_indep:
  "resolve_steps pc ss = Inr rs \<Longrightarrow> \<exists>rs'. resolve_steps pc' ss = Inr rs'"
  by (induction ss arbitrary: rs) (auto split: sum.splits)

lemma main_RanD:
  assumes "main argv env fs = Ran cfg rs"
  shows "\<exists>data named pfx ss.
           2 \<le> length argv
         \<and> fs (argv ! 1) = Inr (PDict data)
         \<and> with_name (project_block data) (project_name_of argv env) = Inr named
         \<and> normalize_prefix (if project_name_of argv env \<noteq> [] then PStr (project_name_of argv env)
                               else dict_get named (PStr (str ''name'')) (PStr [])) = Inr pfx
         \<and> inject_env pfx env named = Inr cfg
         \<and> dict_get data (PStr (str ''TEST_STEPS'')) (PList []) = PList ss
         \<and> ss \<noteq> []
         \<and> resolve_steps cfg ss = Inr rs"
  using assms
  unfolding main_def Let_def
  by (auto split: if_splits sum.splits pyval.splits list.splits)

lemma main_RanI:
  assumes "2 \<le> length argv"
    and "fs (argv ! 1) = Inr (PDict data)"
    and "with_name (project_block data) (project_name_of argv env) = Inr named"
    and "normalize_prefix (if project_name_of argv env \<noteq> [] then PStr (project_name_of argv env)
                               else dict_get named (PStr (str ''name'')) (PStr [])) = Inr pfx"
    and "inject_env pfx env named = Inr cfg"
    and "dict_get data (PStr (str ''TEST_STEPS'')) (PList []) = PList ss"
    and "ss \<noteq> []"
    and "resolve_steps cfg ss = Inr rs"
  shows "main argv env fs = Ran cfg rs"
  using assms
  unfolding main_def Let_def
  by (cases ss) (auto split: if_splits sum.splits pyval.splits list.splits)

section \<open>Strings that can be encoded\<close>

lemma upper_part_0061_ok: "list_all (\<lambda>(k, v). encodable v) upper_part_0061"
  by (simp add: upper_part_0061_def encodable_def lone_surrogate_def)

lemma upper_part_00B5_ok: "list_all (\<lambda>(k, v). encodable v) upper_part_00B5"
  by (simp add: upper_part_00B5_def encodable_def lone_surrogate_def)

lemma upper_part_015F_ok: "list_all (\<lambda>(k, v). encodable v) upper_part_015F"
  by (simp add: upper_part_015F_def encodable_def lone_surrogate_def)

lemma upper_part_0215_ok: "list_all (\<lambda>(k, v). encodable v) upper_part_0215"
  by (simp add: upper_part_0215_def encodable_def lone_surrogate_def)

lemma upper_part_03B7_ok: "list_all (\<lambda>(k, v). encodable v) upper_part_03B7"
  by (simp add: upper_part_03B7_def encodable_def lone_surrogate_def)

lemma upper_part_0450_ok: "list_all (\<lambda>(k, v). encodable v) upper_part_0450"
  by (simp add: upper_part_0450_def encodable_def lone_surrogate_def)

lemma upper_part_04E9_ok: "list_all (\<lambda>(k, v). encodable v) upper_part_04E9"
  by (simp add: upper_part_04E9_def encodable_def lone_surrogate_def)

lemma upper_part_10D5_ok: "list_all (\<lambda>(k, v). encodable v) upper_part_10D5"
  by (simp add: upper_part_10D5_def encodable_def lone_surrogate_def)

lemma upper_part_1E2B_ok: "list_all (\<lambda>(k, v). encodable v) upper_part_1E2B"
  by (simp add: upper_part_1E2B_def encodable_def lone_surrogate_def)

lemma upper_part_1EC9_ok: "list_all (\<lambda>(k, v). encodable v) upper_part_1EC9"
  by (simp add: upper_part_1EC9_def encodable_def lone_surrogate_def)

lemma upper_part_1F70_ok: "list_all (\<lambda>(k, v). encodable v) upper_part_1F70"
  by (simp add: upper_part_1F70_def encodable_def lone_surrogate_def)

lemma upper_part_1FD3_ok: "list_all (\<lambda>(k, v). encodable v) upper_part_1FD3"
  by (simp add: upper_part_1FD3_def encodable_def lone_surrogate_def)

lemma upper_part_2C43_ok: "list_all (\<lambda>(k, v). encodable v) upper_part_2C43"
  by (simp add: upper_part_2C43_def encodable_def lone_surrogate_def)

lemma upper_part_2CD7_ok: "list_all (\<lambda>(k, v). encodable v) upper_part_2CD7"
  by (simp add: upper_part_2CD7_def encodable_def lone_surrogate_def)

lemma upper_part_A68F_ok: "list_all (\<lambda>(k, v). encodable v) upper_part_A68F"
  by (simp add: upper_part_A68F_def encodable_def lone_surrogate_def)

lemma upper_part_AB53_ok: "list_all (\<lambda>(k, v). encodable v) upper_part_AB53"
  by (simp add: upper_part_AB53_def encodable_def lone_surrogate_def)

lemma upper_part_ABBF_ok: "list_all (\<lambda>(k, v). encodable v) upper_part_ABBF"
  by (simp add: upper_part_ABBF_def encodable_def lone_surrogate_def)

lemma upper_part_104D9_ok: "list_all (\<lambda>(k, v). encodable v) upper_part_104D9"
  by (simp add: upper_part_104D9_def encodable_def lone_surrogate_def)

lemma upper_part_10CCA_ok: "list_all (\<lambda>(k, v). encodable v) upper_part_10CCA"
  by (simp add: upper_part_10CCA_def encodable_def lone_surrogate_def)

lemma upper_part_16E67_ok: "list_all (\<lambda>(k, v). encodable v) upper_part_16E67"
  by (simp add: upper_part_16E67_def encodable_def lone_surrogate_def)

lemma upper_part_ok: "list_all (\<lambda>(k, v). encodable v) (upper_part c)"
  by (simp add: upper_part_def
        upper_part_0061_ok upper_part_00B5_ok upper_part_015F_ok upper_part_0215_ok
        upper_part_03B7_ok upper_part_0450_ok upper_part_04E9_ok upper_part_10D5_ok
        upper_part_1E2B_ok upper_part_1EC9_ok upper_part_1F70_ok upper_part_1FD3_ok
        upper_part_2C43_ok upper_part_2CD7_ok upper_part_A68F_ok upper_part_AB53_ok
        upper_part_ABBF_ok upper_part_104D9_ok upper_part_10CCA_ok upper_part_16E67_ok)

lemma upper_cp_encodable: "\<not> lone_surrogate c \<Longrightarrow> encodable (upper_cp c)"
proof (cases "map_of (upper_part c) c")
  case None
  assume "\<not> lone_surrogate c"
  with None show ?thesis by (simp add: upper_cp_def encodable_def)
next
  case (Some u)
  then have "(c, u) \<in> set (upper_part c)" by (rule map_of_SomeD)
  with upper_part_ok [of c] have "encodable u" by (auto simp: list_all_iff)
  with Some show ?thesis by (simp add: upper_cp_def)
qed

lemma py_upper_encodable: "encodable s \<Longrightarrow> encodable (py_upper s)"
proof (induction s)
  case Nil
  then show ?case by (simp add: py_upper_def)
next
  case (Cons c s)
  then have "\<not> lone_surrogate c" "encodable s"
    by (simp_all add: encodable_def)
  with Cons.IH upper_cp_encodable [of c] have "encodable (upper_cp c @ py_upper s)"
    by simp
  then show ?case by (simp add: py_upper_def)
qed

lemma replace_cp_encodable:
  "\<not> lone_surrogate new \<Longrightarrow> encodable s \<Longrightarrow> encodable (replace_cp old new s)"
  by (auto simp: encodable_def replace_cp_def list_ex_iff)

lemma encodable_decoded: "encodable (decoded s)"
  by (simp add: encodable_def decoded_def list_ex_iff)

lemma project_name_of_encodable: "encodable (project_name_of argv env)"
  by (simp add: project_name_of_def encodable_decoded)

lemma normalize_prefix_encodable:
  assumes "normalize_prefix (PStr s) = Inr pfx" and "encodable s"
  shows "encodable pfx"
proof -
  have u: "\<not> lone_surrogate 0x5F" by (simp add: lone_surrogate_def)
  have "encodable (replace_cp 0x20 0x5F (replace_cp 0x2D 0x5F (py_upper s)))"
    using assms(2) by (intro replace_cp_encodable py_upper_encodable u)
  moreover have "encodable (replace_cp 0x20 0x5F (replace_cp 0x2D 0x5F (py_upper [])))"
    by (intro replace_cp_encodable py_upper_encodable u) (simp add: encodable_def)
  ultimately show ?thesis
    using assms(1) by (auto simp: normalize_prefix_def split: if_splits)
qed

lemma caller_prefix:
  assumes "project_name_of argv env \<noteq> []"
  shows "\<exists>pfx. normalize_prefix (PStr (project_name_of argv env)) = Inr pfx \<and> encodable pfx"
proof -
  obtain pfx where p: "normalize_prefix (PStr (project_name_of argv env)) = Inr pfx"
    using assms by (simp add: normalize_prefix_def)
  with normalize_prefix_encodable [OF p project_name_of_encodable] show ?thesis by blast
qed

section \<open>The credential resolver\<close>

lemma replace_twice:
  "replace_cp 0x20 0x5F (replace_cp 0x2D 0x5F s) =
     map (\<lambda>c. if c = 0x2D \<or> c = 0x20 then 0x5F else c) s"
  by (simp add: replace_cp_def)

lemma normalize_prefix_Inr:
  "normalize_prefix v = Inr pfx \<Longrightarrow>
     pfx = map (\<lambda>c. if c = 0x2D \<or> c = 0x20 then 0x5F else c)
             (py_upper (case v of PStr s \<Rightarrow> s | _ \<Rightarrow> []))"
  by (cases v) (auto simp: normalize_prefix_def replace_cp_def py_upper_def split: if_splits)

lemma with_name_lookup:
  "with_name (PDict pc) pn = Inr named \<Longrightarrow>
     dict_lookup named k =
       (case dict_lookup pc k of
          Some v \<Rightarrow> Some v
        | None \<Rightarrow> if k = PStr (str ''name'') then Some (PStr pn) else None)"
  by (auto simp: dict_contains_def lookup_setitem split: if_splits option.splits)

lemma project_name_of_cong:
  assumes "env' (str ''PROJECT'') = env (str ''PROJECT'')"
    and "env' (str ''TARGET'') = env (str ''TARGET'')"
    and "env' (str ''BRAND'') = env (str ''BRAND'')"
  shows "project_name_of argv env' = project_name_of argv env"
  using assms by (simp add: project_name_of_def environ_get_def)

lemma main_Ran_env:
  assumes run: "main argv env fs = Ran cfg rs"
    and same: "project_name_of argv env' = project_name_of argv env"
  shows "\<exists>cfg' rs'. main argv env' fs = Ran cfg' rs'"
proof -
  from main_RanD [OF run] obtain data named pfx ss where
    a: "2 \<le> length argv" and d: "fs (argv ! 1) = Inr (PDict data)"
    and n: "with_name (project_block data) (project_name_of argv env) = Inr named"
    and p: "normalize_prefix (if project_name_of argv env \<noteq> [] then PStr (project_name_of argv env)
              else dict_get named (PStr (str ''name'')) (PStr [])) = Inr pfx"
    and c: "inject_env pfx env named = Inr cfg"
    and s: "dict_get data (PStr (str ''TEST_STEPS'')) (PList []) = PList ss" "ss \<noteq> []"
    and r: "resolve_steps cfg ss = Inr rs"
    by blast
  from inject_env_encodable [OF inject_env_InrD [OF c], of env' named] obtain cfg' where
    c': "inject_env pfx env' named = Inr cfg'" by blast
  from resolve_steps_ok_indep [OF r] obtain rs' where
    r': "resolve_steps cfg' ss = Inr rs'" by blast
  have n': "with_name (project_block data) (project_name_of argv env') = Inr named"
    unfolding same by (rule n)
  have p': "normalize_prefix (if project_name_of argv env' \<noteq> [] then PStr (project_name_of argv env')
              else dict_get named (PStr (str ''name'')) (PStr [])) = Inr pfx"
    unfolding same by (rule p)
  show ?thesis
    using main_RanI [of argv fs data env' named pfx cfg' ss rs'] a d n' p' c' s r' by blast
qed

text \<open>
  C4. When a flow loads, the prefix of the variables is the project name in upper case
  (\<open>str.upper\<close>, letters outside ASCII included) with every \<open>-\<close> and every space
  replaced by \<open>_\<close>, the name being the one given by the caller, or the name of the
  document when the caller's is empty. The \<open>email\<close>, \<open>password\<close> and \<open>user_agent\<close> of the
  configuration, where the document has none, are the variables \<open>PREFIX_EMAIL\<close>,
  \<open>PREFIX_PASSWORD\<close> and \<open>PREFIX_USER_AGENT\<close>, with the empty string for a missing email
  or password and the browser string below for a missing user agent. And the flow
  loads under every other environment that names the same project, also one without
  any credential.
\<close>

theorem credential_resolver:
  assumes run: "main argv env fs = Ran cfg rs"
    and doc: "fs (argv ! 1) = Inr (PDict data)"
    and block: "project_block data = PDict pc"
    and src: "name = (if project_name_of argv env \<noteq> [] then project_name_of argv env
                      else case dict_lookup pc (PStr (str ''name'')) of Some (PStr s) \<Rightarrow> s | _ \<Rightarrow> [])"
    and pfx: "pfx = map (\<lambda>c. if c = 0x2D \<or> c = 0x20 then 0x5F else c) (py_upper name)"
    and same: "env' (str ''PROJECT'') = env (str ''PROJECT'')"
      "env' (str ''TARGET'') = env (str ''TARGET'')"
      "env' (str ''BRAND'') = env (str ''BRAND'')"
  shows "dict_lookup cfg (PStr (str ''email'')) =
           Some (case dict_lookup pc (PStr (str ''email'')) of
                   Some v \<Rightarrow> v
                 | None \<Rightarrow> PStr (case env (pfx @ str ''_EMAIL'') of Some e \<Rightarrow> e | None \<Rightarrow> []))
       \<and> dict_lookup cfg (PStr (str ''password'')) =
           Some (case dict_lookup pc (PStr (str ''password'')) of
                   Some v \<Rightarrow> v
                 | None \<Rightarrow> PStr (case env (pfx @ str ''_PASSWORD'') of Some e \<Rightarrow> e | None \<Rightarrow> []))
       \<and> dict_lookup cfg (PStr (str ''user_agent'')) =
           Some (case dict_lookup pc (PStr (str ''user_agent'')) of
                   Some v \<Rightarrow> v
                 | None \<Rightarrow>
                     PStr (case env (pfx @ str ''_USER_AGENT'') of
                             Some e \<Rightarrow> e
                           | None \<Rightarrow> str ''Mozilla/5.0 (Macintosh; Intel Mac OS X 10_15_7) AppleWebKit/537.36 (KHTML, like Gecko) Chrome/126.0.0.0 Safari/537.36''))
       \<and> (\<exists>cfg' rs'. main argv env' fs = Ran cfg' rs')"
proof -
  from main_RanD [OF run] doc block obtain named pfx' where
    n: "with_name (PDict pc) (project_name_of argv env) = Inr named"
    and p: "normalize_prefix (if project_name_of argv env \<noteq> [] then PStr (project_name_of argv env)
              else dict_get named (PStr (str ''name'')) (PStr [])) = Inr pfx'"
    and c: "inject_env pfx' env named = Inr cfg"
    by auto
  have "pfx' = pfx"
  proof (cases "project_name_of argv env = []")
    case False
    then show ?thesis using normalize_prefix_Inr [OF p] src pfx by simp
  next
    case True
    have "dict_get named (PStr (str ''name'')) (PStr []) =
            (case dict_lookup pc (PStr (str ''name'')) of Some v \<Rightarrow> v | None \<Rightarrow> PStr [])"
      using with_name_lookup [OF n, of "PStr (str ''name'')"] True
      by (simp add: dict_get_def split: option.splits)
    then show ?thesis
      using normalize_prefix_Inr [OF p] src pfx True
      by (auto split: option.splits pyval.splits)
  qed
  with c have c: "inject_env pfx env named = Inr cfg" by simp
  have neq: "str ''email'' \<noteq> str ''name''" "str ''password'' \<noteq> str ''name''"
    "str ''user_agent'' \<noteq> str ''name''"
    by (simp_all add: str_def)
  have look: "\<And>k. k \<noteq> PStr (str ''name'') \<Longrightarrow> dict_lookup named k = dict_lookup pc k"
    using with_name_lookup [OF n] by (simp split: option.splits)
  have 1: "dict_lookup cfg (PStr (str ''email'')) =
           Some (case dict_lookup pc (PStr (str ''email'')) of
                   Some v \<Rightarrow> v
                 | None \<Rightarrow> PStr (case env (pfx @ str ''_EMAIL'') of Some e \<Rightarrow> e | None \<Rightarrow> []))"
    using look [of "PStr (str ''email'')"] neq
    by (simp add: lookup_inject_env [OF c] environ_get_def split: option.splits)
  have 2: "dict_lookup cfg (PStr (str ''password'')) =
           Some (case dict_lookup pc (PStr (str ''password'')) of
                   Some v \<Rightarrow> v
                 | None \<Rightarrow> PStr (case env (pfx @ str ''_PASSWORD'') of Some e \<Rightarrow> e | None \<Rightarrow> []))"
    using look [of "PStr (str ''password'')"] neq
    by (simp add: lookup_inject_env [OF c] environ_get_def str_inj split: option.splits)
  have 3: "dict_lookup cfg (PStr (str ''user_agent'')) =
           Some (case dict_lookup pc (PStr (str ''user_agent'')) of
                   Some v \<Rightarrow> v
                 | None \<Rightarrow>
                     PStr (case env (pfx @ str ''_USER_AGENT'') of
                             Some e \<Rightarrow> e
                           | None \<Rightarrow> str ''Mozilla/5.0 (Macintosh; Intel Mac OS X 10_15_7) AppleWebKit/537.36 (KHTML, like Gecko) Chrome/126.0.0.0 Safari/537.36''))"
    using look [of "PStr (str ''user_agent'')"] neq
    by (simp add: lookup_inject_env [OF c] environ_get_def default_ua_def str_inj
          split: option.splits)
  have 4: "\<exists>cfg' rs'. main argv env' fs = Ran cfg' rs'"
    using main_Ran_env [OF run project_name_of_cong [OF same]] .
  show ?thesis using 1 2 3 4 by blast
qed

lemmas dict_eval = dict_get_def dict_contains_def dict_setdefault_def py_key_eq_def
lemmas main_eval =
  main_def project_name_of_def project_block_def normalize_prefix_def inject_env_def
  resolve_tokens_def getenv_def environ_get_def encodable_def lone_surrogate_def decoded_def
  py_upper_def upper_cp_def upper_part_def upper_part_0061_def replace_cp_def py_in_def
  dict_eval Let_def str_def
lemmas acme_eval =
  argv_acme_def env_acme_def env_none_def fs_acme_def doc_acme_def step_navigate_def
  step_fill_email_def step_click_def cfg_acme_def step_fill_resolved_def

lemma run_acme:
  "main argv_acme env_acme fs_acme = Ran cfg_acme [step_navigate, step_fill_resolved, step_click]"
  by (simp add: main_eval acme_eval)

lemma doc_acme_read: "fs_acme (argv_acme ! 1) = Inr (PDict doc_acme)"
  by (simp add: fs_acme_def argv_acme_def)

lemma block_acme: "project_block doc_acme = PDict [(PStr (str ''name''), PStr (str ''acme''))]"
  by (simp add: project_block_def doc_acme_def dict_eval str_def)

lemma name_acme: "project_name_of argv_acme env = str ''acme''"
  by (simp add: project_name_of_def argv_acme_def decoded_def lone_surrogate_def str_def)

lemma name_cafe: "project_name_of argv_cafe env = cafe_name"
  by (simp add: project_name_of_def argv_cafe_def cafe_name_def decoded_def lone_surrogate_def
        str_def)

lemma cafe_name_not_empty: "cafe_name \<noteq> []"
  by (simp add: cafe_name_def)

lemma upper_cafe:
  "map (\<lambda>c. if c = 0x2D \<or> c = 0x20 then 0x5F else c) (py_upper cafe_name) = cafe_prefix"
  by (simp add: cafe_name_def cafe_prefix_def py_upper_def upper_cp_def upper_part_def
        upper_part_0061_def upper_part_00B5_def str_def)

lemma doc_bare_read: "fs_bare (argv_cafe ! 1) = Inr (PDict doc_bare)"
  by (simp add: fs_bare_def argv_cafe_def)

lemma block_bare: "project_block doc_bare = PDict []"
  by (simp add: project_block_def doc_bare_def dict_eval str_def)

lemma run_cafe: "main argv_cafe env_cafe fs_bare = Ran cfg_cafe [step_click]"
proof -
  have a: "2 \<le> length argv_cafe" by (simp add: argv_cafe_def)
  have n: "with_name (project_block doc_bare) (project_name_of argv_cafe env_cafe) =
             Inr [(PStr (str ''name''), PStr cafe_name)]"
    by (simp add: block_bare name_cafe dict_eval)
  have p: "normalize_prefix
             (if project_name_of argv_cafe env_cafe \<noteq> [] then PStr (project_name_of argv_cafe env_cafe)
              else dict_get [(PStr (str ''name''), PStr cafe_name)] (PStr (str ''name'')) (PStr [])) =
             Inr cafe_prefix"
    by (simp add: name_cafe cafe_name_not_empty normalize_prefix_def replace_twice upper_cafe)
  have c: "inject_env cafe_prefix env_cafe [(PStr (str ''name''), PStr cafe_name)] = Inr cfg_cafe"
    by (simp add: inject_env_def getenv_def environ_get_def encodable_def lone_surrogate_def
          env_cafe_def cafe_prefix_def cfg_cafe_def dict_eval str_def)
  have s: "dict_get doc_bare (PStr (str ''TEST_STEPS'')) (PList []) = PList [PDict step_click]"
    by (simp add: doc_bare_def dict_eval str_def)
  have r: "resolve_steps cfg_cafe [PDict step_click] = Inr [step_click]"
    by (simp add: resolve_tokens_def step_click_def str_def)
  show ?thesis
    using main_RanI [of argv_cafe fs_bare doc_bare env_cafe "[(PStr (str ''name''), PStr cafe_name)]"
        cafe_prefix cfg_cafe "[PDict step_click]" "[step_click]"]
      a doc_bare_read n p c s r
    by simp
qed

theorem credential_resolver_witness:
  "main argv_acme env_acme fs_acme = Ran cfg_acme [step_navigate, step_fill_resolved, step_click]
   \<and> dict_lookup cfg_acme (PStr (str ''email'')) = Some (PStr (str ''test@x.com''))
   \<and> dict_lookup cfg_acme (PStr (str ''password'')) = Some (PStr [])
   \<and> dict_lookup cfg_acme (PStr (str ''user_agent'')) = Some (PStr (str ''Mozilla/5.0 (Macintosh; Intel Mac OS X 10_15_7) AppleWebKit/537.36 (KHTML, like Gecko) Chrome/126.0.0.0 Safari/537.36''))
   \<and> (\<exists>cfg' rs'. main argv_acme env_none fs_acme = Ran cfg' rs')
   \<and> main argv_cafe env_cafe fs_bare = Ran cfg_cafe [step_click]
   \<and> env_cafe (cafe_prefix @ str ''_EMAIL'') = Some (str ''cafe@x.com'')
   \<and> dict_lookup cfg_cafe (PStr (str ''email'')) = Some (PStr (str ''cafe@x.com''))"
proof -
  have src: "str ''acme'' =
      (if project_name_of argv_acme env_acme \<noteq> [] then project_name_of argv_acme env_acme
       else case dict_lookup [(PStr (str ''name''), PStr (str ''acme''))] (PStr (str ''name'')) of
              Some (PStr s) \<Rightarrow> s | _ \<Rightarrow> [])"
    by (simp add: name_acme str_def)
  have pfx: "str ''ACME'' = map (\<lambda>c. if c = 0x2D \<or> c = 0x20 then 0x5F else c) (py_upper (str ''acme''))"
    by (simp add: str_def py_upper_def upper_cp_def upper_part_def upper_part_0061_def)
  have same: "env_none (str ''PROJECT'') = env_acme (str ''PROJECT'')"
    "env_none (str ''TARGET'') = env_acme (str ''TARGET'')"
    "env_none (str ''BRAND'') = env_acme (str ''BRAND'')"
    by (simp_all add: env_none_def env_acme_def str_def)
  have src2: "cafe_name =
      (if project_name_of argv_cafe env_cafe \<noteq> [] then project_name_of argv_cafe env_cafe
       else case dict_lookup [] (PStr (str ''name'')) of Some (PStr s) \<Rightarrow> s | _ \<Rightarrow> [])"
    by (simp add: name_cafe cafe_name_not_empty)
  have pfx2: "cafe_prefix = map (\<lambda>c. if c = 0x2D \<or> c = 0x20 then 0x5F else c) (py_upper cafe_name)"
    by (simp add: upper_cafe)
  have same2: "env_cafe (str ''PROJECT'') = env_cafe (str ''PROJECT'')"
    "env_cafe (str ''TARGET'') = env_cafe (str ''TARGET'')"
    "env_cafe (str ''BRAND'') = env_cafe (str ''BRAND'')"
    by simp_all
  have e2: "env_cafe (cafe_prefix @ str ''_EMAIL'') = Some (str ''cafe@x.com'')"
    by (simp add: env_cafe_def)
  have acme: "dict_lookup cfg_acme (PStr (str ''email'')) = Some (PStr (str ''test@x.com''))
      \<and> dict_lookup cfg_acme (PStr (str ''password'')) = Some (PStr [])
      \<and> dict_lookup cfg_acme (PStr (str ''user_agent'')) = Some (PStr (str ''Mozilla/5.0 (Macintosh; Intel Mac OS X 10_15_7) AppleWebKit/537.36 (KHTML, like Gecko) Chrome/126.0.0.0 Safari/537.36''))
      \<and> (\<exists>cfg' rs'. main argv_acme env_none fs_acme = Ran cfg' rs')"
    using credential_resolver [OF run_acme doc_acme_read block_acme src pfx same]
    by (simp add: env_acme_def dict_eval str_def)
  have cafe: "dict_lookup cfg_cafe (PStr (str ''email'')) = Some (PStr (str ''cafe@x.com''))"
    using credential_resolver [OF run_cafe doc_bare_read block_bare src2 pfx2 same2] e2
    by simp
  show ?thesis
    using acme cafe run_acme run_cafe e2 by simp
qed

section \<open>Token resolution\<close>

lemma inject_env_has:
  assumes "inject_env pfx env pc = Inr cfg"
  shows "\<exists>v. dict_lookup cfg (PStr (str ''email'')) = Some v"
    and "\<exists>v. dict_lookup cfg (PStr (str ''password'')) = Some v"
  by (simp_all add: lookup_inject_env [OF assms] str_inj split: option.splits)

lemma resolve_tokens_email:
  assumes "dict_lookup st (PStr (str ''action'')) = Some (PStr (str ''fill''))"
    and "dict_lookup st (PStr (str ''value'')) = Some (PStr (str ''$EMAIL''))"
    and "dict_lookup pc (PStr (str ''email'')) = Some v"
  shows "dict_lookup (resolve_tokens pc st) k =
           (if k = PStr (str ''value'') then Some v else dict_lookup st k)"
  using assms by (simp add: resolve_tokens_def dict_get_def lookup_setitem)

lemma resolve_tokens_password:
  assumes "dict_lookup st (PStr (str ''action'')) = Some (PStr (str ''fill''))"
    and "dict_lookup st (PStr (str ''value'')) = Some (PStr (str ''$PASSWORD''))"
    and "dict_lookup pc (PStr (str ''password'')) = Some v"
  shows "dict_lookup (resolve_tokens pc st) k =
           (if k = PStr (str ''value'') then Some v else dict_lookup st k)"
proof -
  have "str ''$PASSWORD'' \<noteq> str ''$EMAIL''" by (simp add: str_def)
  then show ?thesis
    using assms by (simp add: resolve_tokens_def dict_get_def lookup_setitem)
qed

lemma resolve_tokens_other:
  assumes "\<not> (dict_lookup st (PStr (str ''action'')) = Some (PStr (str ''fill''))
             \<and> (dict_lookup st (PStr (str ''value'')) = Some (PStr (str ''$EMAIL''))
                \<or> dict_lookup st (PStr (str ''value'')) = Some (PStr (str ''$PASSWORD''))))"
  shows "resolve_tokens pc st = st"
  using assms by (auto simp: resolve_tokens_def split: option.splits pyval.splits)

text \<open>
  C5. When a flow loads, the engine receives as many steps as the document has, and
  for a step that is an object: if its action is \<open>fill\<close> and its value is exactly
  \<open>$EMAIL\<close>, the value it is handed is the email of the configuration, and every other
  key is as in the document; likewise \<open>$PASSWORD\<close> and the password; in every other
  case the step is handed over unchanged. The substitution is done before the engine
  is called.
\<close>

theorem token_resolution:
  assumes run: "main argv env fs = Ran cfg rs"
    and doc: "fs (argv ! 1) = Inr (PDict data)"
    and steps: "dict_lookup data (PStr (str ''TEST_STEPS'')) = Some (PList steps)"
    and i: "i < length steps" "steps ! i = PDict st"
  shows "length rs = length steps
     \<and> (dict_lookup st (PStr (str ''action'')) = Some (PStr (str ''fill''))
          \<and> dict_lookup st (PStr (str ''value'')) = Some (PStr (str ''$EMAIL''))
        \<longrightarrow> dict_lookup (rs ! i) (PStr (str ''value'')) = dict_lookup cfg (PStr (str ''email''))
            \<and> (\<forall>k. k \<noteq> PStr (str ''value'') \<longrightarrow> dict_lookup (rs ! i) k = dict_lookup st k))
     \<and> (dict_lookup st (PStr (str ''action'')) = Some (PStr (str ''fill''))
          \<and> dict_lookup st (PStr (str ''value'')) = Some (PStr (str ''$PASSWORD''))
        \<longrightarrow> dict_lookup (rs ! i) (PStr (str ''value'')) = dict_lookup cfg (PStr (str ''password''))
            \<and> (\<forall>k. k \<noteq> PStr (str ''value'') \<longrightarrow> dict_lookup (rs ! i) k = dict_lookup st k))
     \<and> (\<not> (dict_lookup st (PStr (str ''action'')) = Some (PStr (str ''fill''))
             \<and> (dict_lookup st (PStr (str ''value'')) = Some (PStr (str ''$EMAIL''))
                \<or> dict_lookup st (PStr (str ''value'')) = Some (PStr (str ''$PASSWORD''))))
        \<longrightarrow> rs ! i = st)"
proof -
  from main_RanD [OF run] doc steps obtain named pfx where
    c: "inject_env pfx env named = Inr cfg" and r: "resolve_steps cfg steps = Inr rs"
    by (auto simp: dict_get_def)
  from resolve_steps_Inr [OF r] i have len: "length rs = length steps"
    and ri: "rs ! i = resolve_tokens cfg st"
    by auto
  from inject_env_has [OF c] obtain ve vp where
    ve: "dict_lookup cfg (PStr (str ''email'')) = Some ve"
    and vp: "dict_lookup cfg (PStr (str ''password'')) = Some vp"
    by auto
  show ?thesis
    using len ri ve vp resolve_tokens_email [of st cfg ve] resolve_tokens_password [of st cfg vp]
      resolve_tokens_other [of st cfg]
    by simp
qed

lemma doc_acme_steps:
  "dict_lookup doc_acme (PStr (str ''TEST_STEPS'')) =
     Some (PList [PDict step_navigate, PDict step_fill_email, PDict step_click])"
  by (simp add: doc_acme_def str_def)

theorem token_resolution_witness:
  "main argv_acme env_acme fs_acme = Ran cfg_acme [step_navigate, step_fill_resolved, step_click]
   \<and> dict_lookup step_fill_email (PStr (str ''value'')) = Some (PStr (str ''$EMAIL''))
   \<and> dict_lookup ([step_navigate, step_fill_resolved, step_click] ! 1) (PStr (str ''value''))
        = Some (PStr (str ''test@x.com''))
   \<and> [step_navigate, step_fill_resolved, step_click] ! 0 = step_navigate"
  using token_resolution [OF run_acme doc_acme_read doc_acme_steps, of 1 step_fill_email]
    token_resolution [OF run_acme doc_acme_read doc_acme_steps, of 0 step_navigate]
    run_acme
  by (simp add: step_fill_email_def step_navigate_def cfg_acme_def str_def)

section \<open>Load failures\<close>

text \<open>
  C6. A document whose \<open>TEST_STEPS\<close> is missing, empty or not a list never reaches the
  engine: the run ends with exit code 2 after the message
  \<open>No TEST_STEPS found in JSON flow\<close>, or with an exception raised before that by a
  project block which is not usable; with a dictionary as project block and a project
  name from the caller it is the exit with the message.
\<close>

theorem empty_step_list_rejected:
  assumes argv: "2 \<le> length argv"
    and doc: "fs (argv ! 1) = Inr (PDict data)"
    and bad: "dict_lookup data (PStr (str ''TEST_STEPS'')) = None
              \<or> dict_lookup data (PStr (str ''TEST_STEPS'')) = Some (PList [])
              \<or> (\<exists>v. dict_lookup data (PStr (str ''TEST_STEPS'')) = Some v \<and> (\<forall>ss. v \<noteq> PList ss))"
  shows "(main argv env fs = Exit 2 (str ''No TEST_STEPS found in JSON flow'')
          \<or> (\<exists>e. main argv env fs = Raised e))
       \<and> ((\<exists>pc. project_block data = PDict pc) \<and> project_name_of argv env \<noteq> []
          \<longrightarrow> main argv env fs = Exit 2 (str ''No TEST_STEPS found in JSON flow''))"
proof -
  have nolist: "\<And>s ss. dict_get data (PStr (str ''TEST_STEPS'')) (PList []) \<noteq> PList (s # ss)"
    using bad by (auto simp: dict_get_def)
  have first: "main argv env fs = Exit 2 (str ''No TEST_STEPS found in JSON flow'')
          \<or> (\<exists>e. main argv env fs = Raised e)"
    using argv doc nolist unfolding main_def Let_def
    by (auto split: sum.splits pyval.splits list.splits)
  have second: "main argv env fs = Exit 2 (str ''No TEST_STEPS found in JSON flow'')"
    if blk: "project_block data = PDict pc" and nm: "project_name_of argv env \<noteq> []" for pc
  proof -
    from caller_prefix [OF nm] obtain pfx where
      p: "normalize_prefix (PStr (project_name_of argv env)) = Inr pfx" and e: "encodable pfx"
      by blast
    obtain named where
      n: "with_name (project_block data) (project_name_of argv env) = Inr named"
      using blk by simp
    from inject_env_encodable [OF e, of env named] obtain cfg where
      c: "inject_env pfx env named = Inr cfg" by blast
    show ?thesis
      unfolding main_def Let_def
      using argv doc n p c nolist nm
      by (auto split: pyval.splits list.splits)
  qed
  show ?thesis using first second by blast
qed

lemmas runs_eval =
  doc_no_steps_def fs_no_steps_def step_teleport_def doc_teleport_def fs_teleport_def
  doc_empty_name_def fs_empty_name_def doc_bare_def fs_bare_def block_own_email_def
  doc_own_email_def fs_own_email_def cfg_empty_name_def cfg_own_email_def step_fill_own_def

theorem empty_step_list_rejected_witness:
  "dict_lookup doc_no_steps (PStr (str ''TEST_STEPS'')) = Some (PList [])
   \<and> main argv_acme env_acme fs_no_steps = Exit 2 (str ''No TEST_STEPS found in JSON flow'')"
proof -
  have a: "2 \<le> length argv_acme" by (simp add: argv_acme_def)
  have d: "fs_no_steps (argv_acme ! 1) = Inr (PDict doc_no_steps)"
    by (simp add: fs_no_steps_def argv_acme_def)
  have s: "dict_lookup doc_no_steps (PStr (str ''TEST_STEPS'')) = Some (PList [])"
    by (simp add: doc_no_steps_def str_def)
  have b: "project_block doc_no_steps = PDict [(PStr (str ''name''), PStr (str ''acme''))]"
    by (simp add: project_block_def doc_no_steps_def dict_eval str_def)
  have n: "project_name_of argv_acme env_acme \<noteq> []"
    by (simp add: name_acme str_def)
  show ?thesis
    using empty_step_list_rejected [where argv = argv_acme and fs = fs_no_steps
        and data = doc_no_steps and env = env_acme] a d s b n
    by simp
qed

section \<open>Steps are not validated\<close>




section \<open>The name of the project\<close>

text \<open>
  C9, as amended. The name of the configuration is the name the project block of the
  document gives, whatever it is, and the project name of the caller when the block
  has no \<open>name\<close> key.
\<close>

theorem project_name_fallback:
  assumes run: "main argv env fs = Ran cfg rs"
    and doc: "fs (argv ! 1) = Inr (PDict data)"
    and block: "project_block data = PDict pc"
  shows "dict_lookup cfg (PStr (str ''name'')) =
           Some (case dict_lookup pc (PStr (str ''name'')) of
                   Some v \<Rightarrow> v
                 | None \<Rightarrow> PStr (project_name_of argv env))"
proof -
  from main_RanD [OF run] doc block obtain named pfx where
    n: "with_name (PDict pc) (project_name_of argv env) = Inr named"
    and c: "inject_env pfx env named = Inr cfg"
    by auto
  have neq: "str ''name'' \<noteq> str ''email''" "str ''name'' \<noteq> str ''password''"
    "str ''name'' \<noteq> str ''user_agent''"
    by (simp_all add: str_def)
  show ?thesis
    using with_name_lookup [OF n, of "PStr (str ''name'')"] neq
    by (simp add: lookup_inject_env [OF c] split: option.splits)
qed

lemma run_bare: "main argv_acme env_acme fs_bare = Ran cfg_acme [step_click]"
  by (simp add: main_eval acme_eval runs_eval)

theorem project_name_fallback_witness:
  "main argv_acme env_acme fs_bare = Ran cfg_acme [step_click]
   \<and> dict_lookup [] (PStr (str ''name'')) = None
   \<and> dict_lookup cfg_acme (PStr (str ''name'')) = Some (PStr (str ''acme''))"
proof -
  have d: "fs_bare (argv_acme ! 1) = Inr (PDict doc_bare)"
    by (simp add: fs_bare_def argv_acme_def)
  have b: "project_block doc_bare = PDict []"
    by (simp add: project_block_def doc_bare_def dict_eval str_def)
  show ?thesis
    using project_name_fallback [OF run_bare d b] run_bare by (simp add: name_acme)
qed

text \<open>
  C9 as it is stated fails: a project block that names the project with the empty
  string loads, and the name stays empty.
\<close>

theorem empty_name_kept_counterexample:
  "main argv_acme env_acme fs_empty_name = Ran cfg_empty_name [step_click]
   \<and> dict_lookup cfg_empty_name (PStr (str ''name'')) = Some (PStr [])"
  by (simp add: main_eval acme_eval runs_eval)

section \<open>Values of the document\<close>

text \<open>
  C10. An \<open>email\<close>, \<open>password\<close> or \<open>user_agent\<close> that the project block of the document
  gives is the one of the configuration, whatever the environment holds.
\<close>

theorem document_values_kept:
  assumes run: "main argv env fs = Ran cfg rs"
    and doc: "fs (argv ! 1) = Inr (PDict data)"
    and block: "project_block data = PDict pc"
    and key: "k = str ''email'' \<or> k = str ''password'' \<or> k = str ''user_agent''"
    and own: "dict_lookup pc (PStr k) = Some v"
  shows "dict_lookup cfg (PStr k) = Some v"
proof -
  from main_RanD [OF run] doc block obtain named pfx where
    n: "with_name (PDict pc) (project_name_of argv env) = Inr named"
    and c: "inject_env pfx env named = Inr cfg"
    by auto
  show ?thesis
    using with_name_lookup [OF n, of "PStr k"] own
    by (simp add: lookup_inject_env [OF c])
qed

lemma run_own_email: "main argv_acme env_acme fs_own_email = Ran cfg_own_email [step_fill_own]"
  by (simp add: main_eval acme_eval runs_eval)

theorem document_values_kept_witness:
  "env_acme (str ''ACME_EMAIL'') = Some (str ''test@x.com'')
   \<and> main argv_acme env_acme fs_own_email = Ran cfg_own_email [step_fill_own]
   \<and> dict_lookup cfg_own_email (PStr (str ''email'')) = Some (PStr (str ''doc@x.com''))"
proof -
  have d: "fs_own_email (argv_acme ! 1) = Inr (PDict doc_own_email)"
    by (simp add: fs_own_email_def argv_acme_def)
  have b: "project_block doc_own_email = PDict block_own_email"
    by (simp add: project_block_def doc_own_email_def dict_eval str_def)
  have o: "dict_lookup block_own_email (PStr (str ''email'')) = Some (PStr (str ''doc@x.com''))"
    by (simp add: block_own_email_def str_def)
  show ?thesis
    using document_values_kept [OF run_own_email d b _ o] run_own_email
    by (simp add: env_acme_def)
qed

section \<open>The duration of a run\<close>

lemma foldl_min:
  "foldl (\<lambda>m y. if y < m then y else m) x xs = Min (set (x # xs))"
proof -
  have "foldl (\<lambda>m y. if y < m then y else m) x xs = fold min xs x"
    by (induction xs arbitrary: x) (auto simp: min_def not_less)
  then show ?thesis using Min.set_eq_fold [of x xs] by simp
qed

lemma foldl_max:
  "foldl (\<lambda>m y. if m < y then y else m) x xs = Max (set (x # xs))"
proof -
  have "foldl (\<lambda>m y. if m < y then y else m) x xs = fold max xs x"
    by (induction xs arbitrary: x) (auto simp: max_def not_less)
  then show ?thesis using Max.set_eq_fold [of x xs] by simp
qed

lemma py_min_Min: "xs \<noteq> [] \<Longrightarrow> py_min xs = Some (Min (set xs))"
  by (cases xs) (simp_all add: foldl_min)

lemma py_max_Max: "xs \<noteq> [] \<Longrightarrow> py_max xs = Some (Max (set xs))"
  by (cases xs) (simp_all add: foldl_max)

lemma map_filter_start:
  "List.map_filter step_start (map (\<lambda>(s, e). \<lparr>step_start = Some s, step_end = Some e\<rparr>) ses) = map fst ses"
  by (induction ses) (auto simp: List.map_filter_simps)

lemma map_filter_end:
  "List.map_filter step_end (map (\<lambda>(s, e). \<lparr>step_start = Some s, step_end = Some e\<rparr>) ses) = map snd ses"
  by (induction ses) (auto simp: List.map_filter_simps)

text \<open>
  C8, as amended. When \<open>summary.json\<close> of the run directory holds steps that all carry
  a start and an end, and neither the least start nor the greatest end is zero, the
  duration is the greatest end minus the least start, raised to 1 when it is less:
  it comes from the two extremes, not from a sum over the steps.
\<close>

theorem duration_from_steps:
  fixes ses :: "('n::{linorder,minus,zero,one} \<times> 'n) list"
  assumes dir: "dir \<noteq> []"
    and summ: "summary_of dir = Summary (map (\<lambda>(s, e). \<lparr>step_start = Some s, step_end = Some e\<rparr>) ses)"
    and ne: "ses \<noteq> []"
    and nz: "Min (fst ` set ses) \<noteq> 0" "Max (snd ` set ses) \<noteq> 0"
  shows "calculate_test_duration log_content (Some dir) summary_of =
           Span (max (Max (snd ` set ses) - Min (fst ` set ses)) 1)"
proof -
  have "steps_duration (map (\<lambda>(s, e). \<lparr>step_start = Some s, step_end = Some e\<rparr>) ses) =
          Some (max (Max (snd ` set ses) - Min (fst ` set ses)) 1)"
    using ne nz
    by (simp add: steps_duration_def map_filter_start map_filter_end py_min_Min py_max_Max)
  then show ?thesis
    using dir summ by (simp add: calculate_test_duration_def)
qed

theorem duration_from_steps_witness:
  "calculate_test_duration [] (Some (str ''logs/run'')) summary_overlap = Span 10
   \<and> (103 - 100) + (110 - 102) = (11::int)"
proof -
  have d: "str ''logs/run'' \<noteq> []" by (simp add: str_def)
  have f: "summary_overlap (str ''logs/run'') =
      Summary (map (\<lambda>(s, e). \<lparr>step_start = Some s, step_end = Some e\<rparr>) [(100, 103), (102, 110)])"
    by (simp add: summary_overlap_def)
  show ?thesis
    using duration_from_steps [where dir = "str ''logs/run''" and summary_of = summary_overlap
        and ses = "[(100, 103), (102, 110)]" and log_content = "[]"] d f
    by simp
qed

text \<open>
  C8 as it is stated fails: for a single step that starts and ends at 100 the
  duration is 1, not 100 - 100.
\<close>

theorem same_second_duration_counterexample:
  "calculate_test_duration [] (Some (str ''logs/run'')) summary_same_second = Span 1
   \<and> calculate_test_duration [] (Some (str ''logs/run'')) summary_same_second
       \<noteq> Span (Max {100} - Min {100})"
  by (simp add: calculate_test_duration_def steps_duration_def summary_same_second_def
        List.map_filter_simps str_def)

end
